theory Spec2Isabelle
  imports Complex_Main "HOL-Library.AList" "HOL-Library.Product_Lexorder"
    "HOL-Library.Log_Nat"
begin

section \<open>Entities (core/types.ts)\<close>

text \<open>
  A TypeScript \<^verbatim>\<open>number\<close> is the rational it denotes; the arithmetic on numbers is that
  of IEEE doubles (below). NaN and the infinities are outside the model. Epoch
  milliseconds and counts are integers. A string is the list of the bytes of its UTF-8
  encoding. An optional field is an \<open>option\<close>. Field names that are Isabelle keywords
  or HOL constants carry a prime (\<open>id'\<close>, \<open>type'\<close>, \<open>note'\<close>, \<open>text'\<close>, \<open>done'\<close>).
\<close>

definition SCHEMA_VERSION :: nat where
  "SCHEMA_VERSION = 1"

datatype UrgeType =
  Scrolling | Gaming | Junk_food | Late_night_snacking | Shopping_spending | Gambling
  | Alcohol | Weed | Vape | Cigs_cigars | Porn | Custom

record UrgeEntry =
  id' :: string
  type' :: UrgeType
  customLabel :: "string option"
  intensity :: nat
  resisted :: bool
  note' :: "string option"
  ts :: int

datatype Tab = Tab_today | Tab_weekly | Tab_history

record Mission =
  text' :: string
  done' :: bool

record TimeBlocks =
  am :: string
  pm :: string

record DaySnapshot =
  day :: string
  energy :: rat
  mood :: rat
  sleep :: rat
  spent :: rat
  timeBlocks :: "TimeBlocks option"
  missions :: "Mission list"
  urges :: "UrgeEntry list"
  updatedAt :: int

record UI =
  tab :: Tab

text \<open>
  \<^verbatim>\<open>days: Record<DayKey, DaySnapshot>\<close> is an object: finitely many keys, in insertion
  order. It is an association list, read with \<open>map_of\<close> and written with \<open>AList.update\<close>
  (which replaces the value of a key that is there and appends a key that is not).
\<close>

record LockInState =
  version :: nat
  days :: "(string \<times> DaySnapshot) list"
  ui :: UI

section \<open>Date utilities (core/dates.ts)\<close>

text \<open>
  A \<^verbatim>\<open>Date\<close> object is modelled by what this code reads of it: its local calendar fields,
  named after their getters (\<open>getMonth\<close> is 0-based, as in JavaScript). The conversion
  \<^verbatim>\<open>new Date(ts)\<close> of an epoch timestamp depends on the host's time zone; functions that
  perform it take it as the parameter \<open>zone\<close>. Every Date is a valid one: the invalid
  Date (time value NaN) and the ends of the range of time values are outside the model.
\<close>

record Date =
  getFullYear :: int
  getMonth :: nat
  getDate :: nat

text \<open>Number-to-string conversion of a non-negative and of any integer, in decimal.\<close>

fun String_nat :: "nat \<Rightarrow> string" where
  "String_nat n =
     (if n < 10 then [''0123456789'' ! n]
      else String_nat (n div 10) @ [''0123456789'' ! (n mod 10)])"

declare String_nat.simps [simp del]

definition String_int :: "int \<Rightarrow> string" where
  "String_int i = (if i < 0 then CHR ''-'' # String_nat (nat (- i)) else String_nat (nat i))"

text \<open>\<^verbatim>\<open>s.padStart(2, "0")\<close>\<close>

definition padStart2 :: "string \<Rightarrow> string" where
  "padStart2 s = replicate (2 - length s) (CHR ''0'') @ s"

text \<open>
  \<^verbatim>\<open>dayKey(ts)\<close> builds \<^verbatim>\<open>new Date(ts)\<close> and formats its local fields; \<open>dayKey\<close> takes
  that Date.
\<close>

definition dayKey :: "Date \<Rightarrow> string" where
  "dayKey d =
     String_int (getFullYear d) @ ''-'' @ padStart2 (String_nat (getMonth d + 1)) @ ''-''
       @ padStart2 (String_nat (getDate d))"

text \<open>
  \<^verbatim>\<open>fmtShort(d) = d.toLocaleDateString(undefined, { month: "short", day: "numeric" })\<close>.
  The result depends on the host's locale; this is the en-US rendering (\<^verbatim>\<open>Nov 3\<close>). The
  options ask for no year in any locale.
\<close>

definition monthShort :: "nat \<Rightarrow> string" where
  "monthShort m =
     [''Jan'', ''Feb'', ''Mar'', ''Apr'', ''May'', ''Jun'',
      ''Jul'', ''Aug'', ''Sep'', ''Oct'', ''Nov'', ''Dec''] ! m"

definition fmtShort :: "Date \<Rightarrow> string" where
  "fmtShort d = monthShort (getMonth d) @ '' '' @ String_nat (getDate d)"

text \<open>
  \<^verbatim>\<open>cur.setDate(cur.getDate() - 1)\<close>: the previous day of the proleptic Gregorian calendar
  (day 0 of a month is the last day of the month before).
\<close>

definition isLeapYear :: "int \<Rightarrow> bool" where
  "isLeapYear y = ((y mod 4 = 0 \<and> y mod 100 \<noteq> 0) \<or> y mod 400 = 0)"

definition daysInMonth :: "int \<Rightarrow> nat \<Rightarrow> nat" where
  "daysInMonth y m =
     (if m = 1 then (if isLeapYear y then 29 else 28)
      else if m = 3 \<or> m = 5 \<or> m = 8 \<or> m = 10 then 30 else 31)"

definition setDate_prev :: "Date \<Rightarrow> Date" where
  "setDate_prev d =
     (if 1 < getDate d then d\<lparr>getDate := getDate d - 1\<rparr>
      else if 0 < getMonth d
        then d\<lparr>getMonth := getMonth d - 1,
               getDate := daysInMonth (getFullYear d) (getMonth d - 1)\<rparr>
      else d\<lparr>getFullYear := getFullYear d - 1, getMonth := 11, getDate := 31\<rparr>)"

text \<open>
  The host's conversion when its zone is UTC: the civil date of the day
  \<open>ts div 86400000\<close> after 1970-01-01.
\<close>

definition utcDate :: "int \<Rightarrow> Date" where
  "utcDate t =
     (let z = t div 86400000 + 719468;
          era = z div 146097;
          doe = z mod 146097;
          yoe = (doe - doe div 1460 + doe div 36524 - doe div 146096) div 365;
          doy = doe - (365 * yoe + yoe div 4 - yoe div 100);
          mp = (5 * doy + 2) div 153;
          d = doy - (153 * mp + 2) div 5 + 1;
          m = (if mp < 10 then mp + 3 else mp - 9);
          y = yoe + era * 400 + (if m \<le> 2 then 1 else 0)
      in \<lparr>getFullYear = y, getMonth = nat (m - 1), getDate = nat d\<rparr>)"

section \<open>Arithmetic on numbers (IEEE 754 binary64)\<close>

text \<open>
  Every arithmetic operation of the source returns the double nearest to the exact
  result, ties going to the even significand. \<open>binary64 x\<close> is that double: with
  \<open>2 ^ e \<le> |x| < 2 ^ (e + 1)\<close>, the multiple of \<open>2 ^ (e - 52)\<close> nearest to \<open>x\<close>. The exponent
  is not bounded: overflow and the subnormal range are outside the model (the quotients
  and products computed here are zero or lie between \<open>2 ^ -32\<close> and \<open>2 ^ 7\<close>, array lengths
  being below \<open>2 ^ 32\<close>). A literal such as \<^verbatim>\<open>0.4\<close> is \<open>binary64 (4 / 10)\<close>.
\<close>

definition roundTiesToEven :: "rat \<Rightarrow> int" where
  "roundTiesToEven m =
     (let f = \<lfloor>m\<rfloor>; d = m - of_int f in
      if d < 1 / 2 then f else if d > 1 / 2 then f + 1 else if even f then f else f + 1)"

definition exponent :: "rat \<Rightarrow> int" where
  "exponent x =
     (let (p, q) = quotient_of \<bar>x\<bar>; k = bitlen p - bitlen q in
      if 2 powi k \<le> \<bar>x\<bar> then k else k - 1)"

definition binary64 :: "rat \<Rightarrow> rat" where
  "binary64 x =
     (if x = 0 then 0
      else let e = exponent x; m = \<bar>x\<bar> / 2 powi (e - 52) in
        sgn x * of_int (roundTiesToEven m) * 2 powi (e - 52))"

text \<open>\<^verbatim>\<open>a * b\<close>, \<^verbatim>\<open>a / b\<close> (for \<open>b\<close> not zero), \<^verbatim>\<open>a + b\<close> and \<^verbatim>\<open>a - b\<close> on doubles.\<close>

definition fmul :: "rat \<Rightarrow> rat \<Rightarrow> rat" where
  "fmul a b = binary64 (a * b)"

definition fdiv :: "rat \<Rightarrow> rat \<Rightarrow> rat" where
  "fdiv a b = binary64 (a / b)"

definition fadd :: "rat \<Rightarrow> rat \<Rightarrow> rat" where
  "fadd a b = binary64 (a + b)"

definition fsub :: "rat \<Rightarrow> rat \<Rightarrow> rat" where
  "fsub a b = binary64 (a - b)"

section \<open>Scoring and analytics (core/scoring.ts)\<close>

text \<open>
  \<^verbatim>\<open>Math.round(x)\<close> is \<open>\<lfloor>x + 1/2\<rfloor>\<close> of the exact value of \<open>x\<close>, which is \<^const>\<open>round\<close>;
  \<^verbatim>\<open>Math.max\<close> and \<^verbatim>\<open>Math.min\<close> are exact too.
\<close>

definition pct :: "rat \<Rightarrow> int" where
  "pct n = max 0 (min 100 (round n))"

definition clamp :: "rat \<Rightarrow> rat \<Rightarrow> rat \<Rightarrow> rat" where
  "clamp n mn mx = max mn (min mx n)"

text \<open>
  \<^verbatim>\<open>String.prototype.trim\<close> removes white space and line terminators from both ends:
  tab, line feed, vertical tab, form feed, carriage return, space, U+00A0, U+1680,
  U+2000 to U+200A, U+2028, U+2029, U+202F, U+205F, U+3000 and U+FEFF, here by their
  UTF-8 encodings. \<open>stripPrefixes ws s\<close> removes from the front of \<open>s\<close> every leading
  occurrence of a sequence of \<open>ws\<close>.
\<close>

definition whiteSpace :: "string list" where
  "whiteSpace =
     [[CHR 0x09], [CHR 0x0A], [CHR 0x0B], [CHR 0x0C], [CHR 0x0D], [CHR 0x20],
      [CHR 0xC2, CHR 0xA0], [CHR 0xE1, CHR 0x9A, CHR 0x80],
      [CHR 0xE2, CHR 0x80, CHR 0x80], [CHR 0xE2, CHR 0x80, CHR 0x81],
      [CHR 0xE2, CHR 0x80, CHR 0x82], [CHR 0xE2, CHR 0x80, CHR 0x83],
      [CHR 0xE2, CHR 0x80, CHR 0x84], [CHR 0xE2, CHR 0x80, CHR 0x85],
      [CHR 0xE2, CHR 0x80, CHR 0x86], [CHR 0xE2, CHR 0x80, CHR 0x87],
      [CHR 0xE2, CHR 0x80, CHR 0x88], [CHR 0xE2, CHR 0x80, CHR 0x89],
      [CHR 0xE2, CHR 0x80, CHR 0x8A], [CHR 0xE2, CHR 0x80, CHR 0xA8],
      [CHR 0xE2, CHR 0x80, CHR 0xA9], [CHR 0xE2, CHR 0x80, CHR 0xAF],
      [CHR 0xE2, CHR 0x81, CHR 0x9F], [CHR 0xE3, CHR 0x80, CHR 0x80],
      [CHR 0xEF, CHR 0xBB, CHR 0xBF]]"

function stripPrefixes :: "string list \<Rightarrow> string \<Rightarrow> string" where
  "stripPrefixes ws s =
     (case find (\<lambda>w. w \<noteq> [] \<and> take (length w) s = w) ws of
        None \<Rightarrow> s
      | Some w \<Rightarrow> stripPrefixes ws (drop (length w) s))"
  by pat_completeness auto
termination
proof (relation "measure (\<lambda>(ws, s). length s)")
  show "wf (measure (\<lambda>(ws, s). length s))" by simp
next
  fix ws :: "string list" and s w :: string
  assume "find (\<lambda>w. w \<noteq> [] \<and> take (length w) s = w) ws = Some w"
  then have w: "w \<noteq> []" "take (length w) s = w" by (auto simp: find_Some_iff)
  have "0 < length w" using w(1) by simp
  moreover have "length w \<le> length s" using arg_cong [OF w(2), of length] by simp
  ultimately have "length s - length w < length s" by arith
  then show "((ws, drop (length w) s), (ws, s)) \<in> measure (\<lambda>(ws, s). length s)" by simp
qed

declare stripPrefixes.simps [simp del]

definition trim :: "string \<Rightarrow> string" where
  "trim s = rev (stripPrefixes (map rev whiteSpace) (rev (stripPrefixes whiteSpace s)))"

definition missionCompletionPercent :: "Mission list \<Rightarrow> int" where
  "missionCompletionPercent ms =
     (let active = filter (\<lambda>m. length (trim (text' m)) > 0) ms in
      if length active = 0 then 0
      else let done_n = length (filter done' active) in
        pct (fmul (fdiv (of_nat done_n) (of_nat (length active))) 100))"

definition urgeResistPercent :: "UrgeEntry list \<Rightarrow> int" where
  "urgeResistPercent list =
     (if length list = 0 then 0
      else let resisted_n = length (filter resisted list) in
        pct (fmul (fdiv (of_nat resisted_n) (of_nat (length list))) 100))"

definition sleepScore :: "rat \<Rightarrow> int" where
  "sleepScore hours =
     (if hours \<ge> 7 \<and> hours \<le> 8 then 100
      else if hours = 6 then 80
      else if hours = 5 then 60
      else if hours = 4 then 40
      else if hours \<le> 3 then 20
      else if hours = 9 then 90
      else if hours \<ge> 10 then 80
      else 70)"

record Breakdown =
  urge :: int
  miss :: int
  energy_pct :: int
  mood_pct :: int
  sleep_score :: int

record DailyScore =
  score :: int
  grade :: string
  breakdown :: Breakdown

definition calcDailyScoreFromDay :: "DaySnapshot \<Rightarrow> DailyScore" where
  "calcDailyScoreFromDay d =
     (let urge_v = urgeResistPercent (urges d);
          miss_v = missionCompletionPercent (missions d);
          energy_v = pct (fmul (fdiv (clamp (energy d) 1 5) 5) 100);
          mood_v = pct (fmul (fdiv (clamp (mood d) 1 5) 5) 100);
          sleep_v = sleepScore (clamp (sleep d) 0 24);
          score_v =
            fadd (fadd (fadd (fadd (fmul (binary64 (4 / 10)) (of_int urge_v))
                                   (fmul (binary64 (25 / 100)) (of_int miss_v)))
                             (fmul (binary64 (15 / 100)) (of_int energy_v)))
                       (fmul (binary64 (1 / 10)) (of_int mood_v)))
                 (fmul (binary64 (1 / 10)) (of_int sleep_v));
          final = pct score_v;
          grade_v = (if final \<ge> 90 then ''CONTROLLED''
                     else if final \<ge> 75 then ''SOLID''
                     else if final \<ge> 60 then ''UNSTABLE''
                     else ''RED'')
      in \<lparr>score = final, grade = grade_v,
          breakdown = \<lparr>urge = urge_v, miss = miss_v, energy_pct = energy_v,
                       mood_pct = mood_v, sleep_score = sleep_v\<rparr>\<rparr>)"

text \<open>
  The loop of \<^verbatim>\<open>calcStreakFromState\<close>, with \<open>cur\<close> and \<open>streak\<close> as its state. It has
  no bound of its own, so not returning is the value \<open>None\<close>. (A day key is made of
  digits and dashes, so \<^verbatim>\<open>state.days[k]\<close> reads an own property or nothing.)
\<close>

partial_function (option) streakLoop :: "LockInState \<Rightarrow> Date \<Rightarrow> nat \<Rightarrow> nat option" where
  "streakLoop state cur streak =
     (let k = dayKey cur;
          day_v = map_of (days state) k;
          urges_v = (case day_v of Some d \<Rightarrow> urges d | None \<Rightarrow> []);
          any = (length urges_v > 0);
          allResisted = (any \<and> list_all resisted urges_v)
      in if any \<and> allResisted then streakLoop state (setDate_prev cur) (streak + 1)
         else Some streak)"

definition calcStreakFromState :: "LockInState \<Rightarrow> Date \<Rightarrow> nat option" where
  "calcStreakFromState state today_v = streakLoop state today_v 0"

text \<open>
  \<^verbatim>\<open>slipDays\<close> is a \<^verbatim>\<open>Set<string>\<close>: a list without repetition, \<^verbatim>\<open>add\<close> is \<open>List.insert\<close>
  and \<^verbatim>\<open>size\<close> is \<open>length\<close>.
\<close>

record WeeklyRank =
  rank :: string
  score_week :: int
  resistedPct :: int
  slipDays :: nat

definition calcWeeklyRank :: "(int \<Rightarrow> Date) \<Rightarrow> UrgeEntry list \<Rightarrow> WeeklyRank" where
  "calcWeeklyRank zone weekEntries =
     (let total = length weekEntries;
          resisted_n = length (filter resisted weekEntries);
          resistedPct_v = (if total \<noteq> 0 then fmul (fdiv (of_nat resisted_n) (of_nat total)) 100
                           else 0);
          slipDays_v = foldl (\<lambda>S u. if \<not> resisted u then List.insert (dayKey (zone (ts u))) S else S)
                         [] weekEntries;
          score_v = fsub resistedPct_v (fmul (of_nat (length slipDays_v)) 6);
          final = max 0 (min 100 (round score_v));
          rank_v = (if final \<ge> 90 then ''CONTROLLED WEEK''
                    else if final \<ge> 75 then ''SOLID WEEK''
                    else if final \<ge> 60 then ''UNSTABLE''
                    else ''RELAPSE WEEK'')
      in \<lparr>rank = rank_v, score_week = final, resistedPct = round resistedPct_v,
          slipDays = length slipDays_v\<rparr>)"

section \<open>JavaScript values and the key-value store (the runtime)\<close>

text \<open>
  A value that comes out of \<^verbatim>\<open>JSON.parse\<close>. The casts \<^verbatim>\<open>as T\<close> of the source check
  nothing, so whatever was parsed flows on as it is. The keys of an object are distinct;
  \<open>None\<close> of type \<open>json option\<close> is \<^verbatim>\<open>undefined\<close>.
\<close>

datatype json =
  JNull | JBool bool | JNum rat | JStr string | JArr "json list" | JObj "(string \<times> json) list"

text \<open>
  \<^verbatim>\<open>JSON.parse\<close> and \<^verbatim>\<open>JSON.stringify\<close> belong to the runtime. A string is modelled by
  what this code can find out about it: that it is empty (and so falsy), that it is not
  empty and \<^verbatim>\<open>JSON.parse\<close> rejects it, or the value \<^verbatim>\<open>JSON.parse\<close> reads from it.
  \<^verbatim>\<open>JSON.stringify\<close> of a value is a string that reads back as that value.
\<close>

datatype rawString = EmptyString | Unparsable | Encodes json

datatype error = SyntaxError | TypeError | QuotaExceededError | Error string | Unsupported

definition JSON_parse :: "rawString \<Rightarrow> error + json" where
  "JSON_parse t = (case t of Encodes v \<Rightarrow> Inr v | _ \<Rightarrow> Inl SyntaxError)"

definition JSON_stringify :: "json \<Rightarrow> rawString" where
  "JSON_stringify v = Encodes v"

text \<open>Truthiness of a value, and of a value that may be \<^verbatim>\<open>undefined\<close>.\<close>

fun truthy :: "json \<Rightarrow> bool" where
  "truthy JNull = False"
| "truthy (JBool b) = b"
| "truthy (JNum n) = (n \<noteq> 0)"
| "truthy (JStr s) = (s \<noteq> [])"
| "truthy (JArr xs) = True"
| "truthy (JObj kvs) = True"

definition truthy_opt :: "json option \<Rightarrow> bool" where
  "truthy_opt x = (case x of None \<Rightarrow> False | Some v \<Rightarrow> truthy v)"

text \<open>The names every object inherits from \<^verbatim>\<open>Object.prototype\<close>.\<close>

definition objectPrototypeNames :: "string list" where
  "objectPrototypeNames =
     [''constructor'', ''__proto__'', ''hasOwnProperty'', ''isPrototypeOf'',
      ''propertyIsEnumerable'', ''toLocaleString'', ''toString'', ''valueOf'',
      ''__defineGetter__'', ''__defineSetter__'', ''__lookupGetter__'', ''__lookupSetter__'']"

text \<open>
  Property access \<^verbatim>\<open>v.name\<close>, for a name that is neither an array index nor inherited
  from a prototype (the names read here are \<^verbatim>\<open>length\<close>, \<^verbatim>\<open>text\<close>, \<^verbatim>\<open>am\<close>, \<^verbatim>\<open>pm\<close>,
  \<^verbatim>\<open>state\<close>, \<^verbatim>\<open>version\<close>, \<^verbatim>\<open>days\<close>, \<^verbatim>\<open>ui\<close> and \<^verbatim>\<open>tab\<close>): a TypeError on \<^verbatim>\<open>null\<close>, the
  own property of an object, the length of an array or string, and \<^verbatim>\<open>undefined\<close>
  otherwise. The length of a string is counted in bytes; the source only asks whether
  it is zero. \<open>optProp\<close> is \<^verbatim>\<open>v?.name\<close>.
\<close>

fun getProp :: "json \<Rightarrow> string \<Rightarrow> error + json option" where
  "getProp JNull name = Inl TypeError"
| "getProp (JObj kvs) name = Inr (map_of kvs name)"
| "getProp (JArr xs) name = Inr (if name = ''length'' then Some (JNum (of_nat (length xs))) else None)"
| "getProp (JStr s) name = Inr (if name = ''length'' then Some (JNum (of_nat (length s))) else None)"
| "getProp (JNum n) name = Inr None"
| "getProp (JBool b) name = Inr None"

definition optProp :: "json \<Rightarrow> string \<Rightarrow> json option" where
  "optProp v name = (case getProp v name of Inl e \<Rightarrow> None | Inr x \<Rightarrow> x)"

text \<open>\<^verbatim>\<open>x?.name\<close> on an \<open>x\<close> that may itself be \<^verbatim>\<open>undefined\<close>.\<close>

definition optChain :: "json option \<Rightarrow> string \<Rightarrow> json option" where
  "optChain x name = (case x of None \<Rightarrow> None | Some v \<Rightarrow> optProp v name)"

text \<open>\<^verbatim>\<open>x ?? d\<close>: the default replaces \<^verbatim>\<open>undefined\<close> and \<^verbatim>\<open>null\<close>.\<close>

definition nullish :: "json option \<Rightarrow> json \<Rightarrow> json" where
  "nullish x d = (case x of None \<Rightarrow> d | Some JNull \<Rightarrow> d | Some v \<Rightarrow> v)"

text \<open>
  \<^verbatim>\<open>x > 0\<close>. ToNumber of a string, of an array or of an object is not modelled: there
  the result is \<open>Unsupported\<close>.
\<close>

fun gt0 :: "json option \<Rightarrow> error + bool" where
  "gt0 None = Inr False"
| "gt0 (Some (JNum n)) = Inr (n > 0)"
| "gt0 (Some (JBool b)) = Inr b"
| "gt0 (Some JNull) = Inr False"
| "gt0 (Some (JObj kvs)) = Inl Unsupported"
| "gt0 (Some (JStr s)) = Inl Unsupported"
| "gt0 (Some (JArr xs)) = Inl Unsupported"

text \<open>\<^verbatim>\<open>s.trim().length > 0\<close>, a TypeError when \<open>s\<close> is not a string.\<close>

fun trimmedNonEmpty :: "json \<Rightarrow> error + bool" where
  "trimmedNonEmpty (JStr s) = Inr (length (trim s) > 0)"
| "trimmedNonEmpty v = Inl TypeError"

text \<open>
  \<^verbatim>\<open>localStorage\<close>: \<^verbatim>\<open>getItem\<close>, \<^verbatim>\<open>setItem\<close> (which throws when the store refuses the
  write: quota exceeded, store unavailable) and \<^verbatim>\<open>removeItem\<close>.
\<close>

record Storage =
  items :: "string \<Rightarrow> rawString option"
  refuses :: "string \<Rightarrow> rawString \<Rightarrow> bool"

definition getItem :: "Storage \<Rightarrow> string \<Rightarrow> rawString option" where
  "getItem st k = items st k"

definition setItem :: "Storage \<Rightarrow> string \<Rightarrow> rawString \<Rightarrow> error + Storage" where
  "setItem st k v =
     (if refuses st k v then Inl QuotaExceededError else Inr (st\<lparr>items := (items st)(k \<mapsto> v)\<rparr>))"

definition removeItem :: "Storage \<Rightarrow> string \<Rightarrow> Storage" where
  "removeItem st k = st\<lparr>items := (items st)(k := None)\<rparr>"

section \<open>Persistence gateway (core/storage.ts)\<close>

definition KEY_STATE :: string where "KEY_STATE = ''lockin.state''"

definition KEY_URGES :: string where "KEY_URGES = ''lockin.v1.urges''"

definition KEY_ENERGY :: string where "KEY_ENERGY = ''lockin.v1.energy''"

definition KEY_MISSIONS :: string where "KEY_MISSIONS = ''lockin.v1.missions''"

definition KEY_TIMEBLOCKS :: string where "KEY_TIMEBLOCKS = ''lockin.v1.timeblocks''"

definition KEY_MOOD :: string where "KEY_MOOD = ''lockin.v1.mood''"

definition KEY_SLEEP :: string where "KEY_SLEEP = ''lockin.v1.sleep''"

definition KEY_SPENT :: string where "KEY_SPENT = ''lockin.v1.spent''"

text \<open>The typed entities as run-time values (what \<^verbatim>\<open>JSON.stringify\<close> walks).\<close>

definition Mission_json :: "Mission \<Rightarrow> json" where
  "Mission_json m = JObj [(''text'', JStr (text' m)), (''done'', JBool (done' m))]"

definition TimeBlocks_json :: "TimeBlocks \<Rightarrow> json" where
  "TimeBlocks_json t = JObj [(''am'', JStr (am t)), (''pm'', JStr (pm t))]"

fun UrgeType_json :: "UrgeType \<Rightarrow> json" where
  "UrgeType_json Scrolling = JStr ''scrolling''"
| "UrgeType_json Gaming = JStr ''gaming''"
| "UrgeType_json Junk_food = JStr ''junk food''"
| "UrgeType_json Late_night_snacking = JStr ''late-night snacking''"
| "UrgeType_json Shopping_spending = JStr ''shopping/spending''"
| "UrgeType_json Gambling = JStr ''gambling''"
| "UrgeType_json Alcohol = JStr ''alcohol''"
| "UrgeType_json Weed = JStr ''weed''"
| "UrgeType_json Vape = JStr ''vape''"
| "UrgeType_json Cigs_cigars = JStr ''cigs/cigars''"
| "UrgeType_json Porn = JStr ''porn''"
| "UrgeType_json Custom = JStr ''custom''"

definition optional :: "string \<Rightarrow> json option \<Rightarrow> (string \<times> json) list" where
  "optional name x = (case x of None \<Rightarrow> [] | Some v \<Rightarrow> [(name, v)])"

definition UrgeEntry_json :: "UrgeEntry \<Rightarrow> json" where
  "UrgeEntry_json u =
     JObj ([(''id'', JStr (id' u)), (''type'', UrgeType_json (type' u))]
           @ optional ''customLabel'' (map_option JStr (customLabel u))
           @ [(''intensity'', JNum (of_nat (intensity u))), (''resisted'', JBool (resisted u))]
           @ optional ''note'' (map_option JStr (note' u))
           @ [(''ts'', JNum (of_int (ts u)))])"

definition DaySnapshot_json :: "DaySnapshot \<Rightarrow> json" where
  "DaySnapshot_json d =
     JObj ([(''day'', JStr (day d)), (''energy'', JNum (energy d)), (''mood'', JNum (mood d)),
            (''sleep'', JNum (sleep d)), (''spent'', JNum (spent d))]
           @ optional ''timeBlocks'' (map_option TimeBlocks_json (timeBlocks d))
           @ [(''missions'', JArr (map Mission_json (missions d))),
              (''urges'', JArr (map UrgeEntry_json (urges d))),
              (''updatedAt'', JNum (of_int (updatedAt d)))])"

fun Tab_json :: "Tab \<Rightarrow> json" where
  "Tab_json Tab_today = JStr ''today''"
| "Tab_json Tab_weekly = JStr ''weekly''"
| "Tab_json Tab_history = JStr ''history''"

definition LockInState_json :: "LockInState \<Rightarrow> json" where
  "LockInState_json s =
     JObj [(''version'', JNum (of_nat (version s))),
           (''days'', JObj (map (\<lambda>(k, d). (k, DaySnapshot_json d)) (days s))),
           (''ui'', JObj [(''tab'', Tab_json (tab (ui s)))])]"

definition safeParse :: "rawString option \<Rightarrow> json \<Rightarrow> json" where
  "safeParse raw fallback =
     (case raw of
        None \<Rightarrow> fallback
      | Some t \<Rightarrow>
          if t = EmptyString then fallback
          else (case JSON_parse t of Inr v \<Rightarrow> v | Inl e \<Rightarrow> fallback))"

text \<open>The module's own \<^verbatim>\<open>todayKey(d = new Date())\<close>, which calls \<^verbatim>\<open>fmtShort\<close>.\<close>

definition todayKey_storage :: "Date \<Rightarrow> string" where
  "todayKey_storage d = fmtShort d"

definition defaultMissions :: "Mission list" where
  "defaultMissions =
     [\<lparr>text' = '''', done' = False\<rparr>, \<lparr>text' = '''', done' = False\<rparr>,
      \<lparr>text' = '''', done' = False\<rparr>]"

definition defaultDay :: "int \<Rightarrow> string \<Rightarrow> DaySnapshot" where
  "defaultDay now k =
     \<lparr>day = k, energy = 3, mood = 3, sleep = 7, spent = 0,
      timeBlocks = Some \<lparr>am = '''', pm = ''''\<rparr>, missions = defaultMissions, urges = [],
      updatedAt = now\<rparr>"

definition defaultState :: LockInState where
  "defaultState = \<lparr>version = SCHEMA_VERSION, days = [], ui = \<lparr>tab = Tab_today\<rparr>\<rparr>"

text \<open>
  \<^verbatim>\<open>legacyMissions?.some((m) => (m.text ?? "").trim().length > 0) ?? false\<close>: the
  callback on one element, the loop of \<^verbatim>\<open>some\<close> (which stops at the first hit), and
  the call on a value that may be null (no \<^verbatim>\<open>some\<close> on anything but an array).
\<close>

definition missionHasText :: "json \<Rightarrow> error + bool" where
  "missionHasText m =
     (case getProp m ''text'' of
        Inl e \<Rightarrow> Inl e
      | Inr x \<Rightarrow> trimmedNonEmpty (nullish x (JStr '''')))"

fun some_js :: "(json \<Rightarrow> error + bool) \<Rightarrow> json list \<Rightarrow> error + bool" where
  "some_js f [] = Inr False"
| "some_js f (x # xs) =
     (case f x of Inl e \<Rightarrow> Inl e | Inr True \<Rightarrow> Inr True | Inr False \<Rightarrow> some_js f xs)"

fun anyMissionText :: "json \<Rightarrow> error + bool" where
  "anyMissionText JNull = Inr False"
| "anyMissionText (JArr ms) = some_js missionHasText ms"
| "anyMissionText v = Inl TypeError"

text \<open>\<^verbatim>\<open>(legacyTimeBlocks?.am ?? "").trim().length > 0\<close>\<close>

definition blockHasText :: "json \<Rightarrow> string \<Rightarrow> error + bool" where
  "blockHasText tb name = trimmedNonEmpty (nullish (optProp tb name) (JStr ''''))"

text \<open>
  \<^verbatim>\<open>a || b\<close> on conditions that may throw: the right operand is evaluated only when
  the left one is false.
\<close>

definition orElse :: "error + bool \<Rightarrow> error + bool \<Rightarrow> error + bool" where
  "orElse a b = (case a of Inl e \<Rightarrow> Inl e | Inr True \<Rightarrow> Inr True | Inr False \<Rightarrow> b)"

definition hasAnyLegacy ::
  "json \<Rightarrow> json \<Rightarrow> json \<Rightarrow> json \<Rightarrow> json \<Rightarrow> json \<Rightarrow> json \<Rightarrow> error + bool" where
  "hasAnyLegacy legacyUrges legacyEnergy legacyMood legacySleep legacySpent legacyMissions
       legacyTimeBlocks =
     orElse (if truthy legacyUrges then gt0 (optProp legacyUrges ''length'') else Inr False)
    (orElse (Inr (legacyEnergy \<noteq> JNum 3))
    (orElse (Inr (legacyMood \<noteq> JNum 3))
    (orElse (Inr (legacySleep \<noteq> JNum 7))
    (orElse (Inr (legacySpent \<noteq> JNum 0))
    (orElse (anyMissionText legacyMissions)
    (orElse (blockHasText legacyTimeBlocks ''am'')
            (blockHasText legacyTimeBlocks ''pm'')))))))"

text \<open>
  \<^verbatim>\<open>{ ...obj, name: v }\<close> and \<^verbatim>\<open>obj[name] = v\<close> on the properties of an object: the value
  of a name that is there is replaced in place, a new name is appended.
\<close>

definition setProps :: "(string \<times> json) list \<Rightarrow> (string \<times> json) list \<Rightarrow> (string \<times> json) list" where
  "setProps kvs new = foldl (\<lambda>acc (k, v). AList.update k v acc) kvs new"

fun objProps :: "json \<Rightarrow> (string \<times> json) list" where
  "objProps (JObj kvs) = kvs"
| "objProps v = []"

definition migrateLegacyIntoState :: "int \<Rightarrow> Date \<Rightarrow> Storage \<Rightarrow> error + json \<times> Storage" where
  "migrateLegacyIntoState now today_v st =
     (let state = defaultState;
          day_k = todayKey_storage today_v;
          legacyUrges = safeParse (getItem st KEY_URGES) (JArr []);
          legacyEnergy = safeParse (getItem st KEY_ENERGY) (JNum 3);
          legacyMood = safeParse (getItem st KEY_MOOD) (JNum 3);
          legacySleep = safeParse (getItem st KEY_SLEEP) (JNum 7);
          legacySpent = safeParse (getItem st KEY_SPENT) (JNum 0);
          legacyMissions = safeParse (getItem st KEY_MISSIONS) (JArr (map Mission_json defaultMissions));
          legacyTimeBlocks = safeParse (getItem st KEY_TIMEBLOCKS) (TimeBlocks_json \<lparr>am = '''', pm = ''''\<rparr>)
      in case hasAnyLegacy legacyUrges legacyEnergy legacyMood legacySleep legacySpent
                legacyMissions legacyTimeBlocks of
           Inl e \<Rightarrow> Inl e
         | Inr False \<Rightarrow> Inr (LockInState_json state, st)
         | Inr True \<Rightarrow>
             (let snapshot =
                    JObj (setProps (objProps (DaySnapshot_json (defaultDay now day_k)))
                      [(''energy'', legacyEnergy), (''mood'', legacyMood),
                       (''sleep'', legacySleep), (''spent'', legacySpent),
                       (''missions'',
                          if truthy_opt (optProp legacyMissions ''length'') then legacyMissions
                          else JArr (map Mission_json defaultMissions)),
                       (''timeBlocks'', legacyTimeBlocks),
                       (''urges'', nullish (Some legacyUrges) (JArr [])),
                       (''updatedAt'', JNum (of_int now))]);
                  state_v = JObj [(''version'', JNum (of_nat (version state))),
                                  (''days'', JObj [(day_k, snapshot)]),
                                  (''ui'', JObj [(''tab'', Tab_json (tab (ui state)))])]
              in case setItem st KEY_STATE (JSON_stringify state_v) of
                   Inl e \<Rightarrow> Inl e
                 | Inr st1 \<Rightarrow>
                     Inr (state_v,
                          removeItem (removeItem (removeItem (removeItem (removeItem
                            (removeItem (removeItem st1 KEY_URGES) KEY_ENERGY) KEY_MISSIONS)
                            KEY_TIMEBLOCKS) KEY_MOOD) KEY_SLEEP) KEY_SPENT)))"

text \<open>\<^verbatim>\<open>typeof v === "object"\<close> and \<^verbatim>\<open>name in v\<close> (for a name that is not an array index).\<close>

fun typeofObject :: "json \<Rightarrow> bool" where
  "typeofObject JNull = True"
| "typeofObject (JArr xs) = True"
| "typeofObject (JObj kvs) = True"
| "typeofObject v = False"

fun hasProp :: "string \<Rightarrow> json \<Rightarrow> bool" where
  "hasProp name (JObj kvs) = (name \<in> fst ` set kvs)"
| "hasProp name (JArr xs) = (name = ''length'')"
| "hasProp name v = False"

definition loadState :: "int \<Rightarrow> Date \<Rightarrow> Storage \<Rightarrow> error + json \<times> Storage" where
  "loadState now today_v st =
     (let raw = getItem st KEY_STATE in
      if raw = None \<or> raw = Some EmptyString then migrateLegacyIntoState now today_v st
      else
        let parsed = safeParse raw (LockInState_json defaultState) in
        if \<not> truthy parsed \<or> \<not> typeofObject parsed then Inr (LockInState_json defaultState, st)
        else if \<not> hasProp ''version'' parsed \<or> \<not> hasProp ''days'' parsed \<or> \<not> hasProp ''ui'' parsed
          then Inr (LockInState_json defaultState, st)
        else if optProp parsed ''version'' \<noteq> Some (JNum (of_nat SCHEMA_VERSION))
          then Inr (LockInState_json defaultState, st)
        else if \<not> truthy_opt (optChain (optProp parsed ''ui'') ''tab'')
          then Inr (JObj (AList.update ''ui'' (JObj [(''tab'', JStr ''today'')]) (objProps parsed)), st)
        else Inr (parsed, st))"

text \<open>
  \<^verbatim>\<open>saveState(state)\<close>: the state is passed as a run-time value (\<open>LockInState_json s\<close> for
  a typed state \<open>s\<close>).
\<close>

definition saveState :: "Storage \<Rightarrow> json \<Rightarrow> error + Storage" where
  "saveState st state_v = setItem st KEY_STATE (JSON_stringify state_v)"

text \<open>
  \<^verbatim>\<open>state.days[day] ?? defaultDay(day)\<close>. The read also finds what the days object
  inherits from \<^verbatim>\<open>Object.prototype\<close>: for a key that is not its own and is one of those
  names, the inherited value is not nullish and is what \<^verbatim>\<open>getDay\<close> returns.
\<close>

datatype inherited = Inherited string

definition getDay :: "int \<Rightarrow> LockInState \<Rightarrow> string \<Rightarrow> inherited + DaySnapshot" where
  "getDay now state k =
     (case map_of (days state) k of
        Some d \<Rightarrow> Inr d
      | None \<Rightarrow> if k \<in> set objectPrototypeNames then Inl (Inherited k)
                else Inr (defaultDay now k))"

definition upsertDay :: "int \<Rightarrow> LockInState \<Rightarrow> DaySnapshot \<Rightarrow> LockInState" where
  "upsertDay now state next =
     (let days_v = AList.update (day next) (next\<lparr>updatedAt := now\<rparr>) (days state)
      in state\<lparr>days := days_v\<rparr>)"

definition setTab :: "LockInState \<Rightarrow> Tab \<Rightarrow> LockInState" where
  "setTab state t = state\<lparr>ui := (ui state)\<lparr>tab := t\<rparr>\<rparr>"

definition resetAll :: "Storage \<Rightarrow> Storage" where
  "resetAll st =
     removeItem (removeItem (removeItem (removeItem (removeItem (removeItem (removeItem
       (removeItem st KEY_STATE) KEY_URGES) KEY_ENERGY) KEY_MISSIONS) KEY_TIMEBLOCKS)
       KEY_MOOD) KEY_SLEEP) KEY_SPENT"

definition commitDay :: "int \<Rightarrow> Storage \<Rightarrow> LockInState \<Rightarrow> DaySnapshot \<Rightarrow> error + LockInState \<times> Storage" where
  "commitDay now st state d =
     (let nextState = upsertDay now state d in
      case saveState st (LockInState_json nextState) of
        Inl e \<Rightarrow> Inl e
      | Inr st1 \<Rightarrow> Inr (nextState, st1))"

section \<open>The application shell (App.tsx): backup import and the debounced save\<close>

text \<open>
  The part of the component state these handlers touch: the in-memory state (a run-time
  value: an imported state is cast, not checked), the store, the saved indicator and the
  messages shown with \<^verbatim>\<open>alert\<close>. Analytics calls are left out.
\<close>

record App =
  appState :: json
  localStorage :: Storage
  savedPulse :: string
  savedAt :: "int option"
  alerts :: "string list"

text \<open>
  \<^verbatim>\<open>err.message\<close>. The texts of the runtime's own errors are the runtime's; each is
  abbreviated by the name of its error.
\<close>

fun message :: "error \<Rightarrow> string" where
  "message (Error m) = m"
| "message SyntaxError = ''SyntaxError''"
| "message TypeError = ''TypeError''"
| "message QuotaExceededError = ''QuotaExceededError''"
| "message Unsupported = ''Unsupported''"

definition alert :: "string \<Rightarrow> App \<Rightarrow> App" where
  "alert m app = app\<lparr>alerts := alerts app @ [m]\<rparr>"

definition pulseSaved :: "int \<Rightarrow> App \<Rightarrow> App" where
  "pulseSaved now app = app\<lparr>savedAt := Some now, savedPulse := ''saved''\<rparr>"

text \<open>
  The body of the debounced save effect:
  \<^verbatim>\<open>try { saveState(state); pulseSaved(); } catch { /* ignore storage errors */ }\<close>
\<close>

definition saveDebounced :: "int \<Rightarrow> App \<Rightarrow> App" where
  "saveDebounced now app =
     (case saveState (localStorage app) (appState app) of
        Inl e \<Rightarrow> app
      | Inr st1 \<Rightarrow> pulseSaved now (app\<lparr>localStorage := st1\<rparr>))"

text \<open>
  \<^verbatim>\<open>onImportFile\<close>, first variant. \<open>file\<close> is the text of the chosen file, \<open>None\<close> when no
  file was chosen. Every \<^verbatim>\<open>throw\<close> inside the \<^verbatim>\<open>try\<close> ends in the \<^verbatim>\<open>catch\<close>, which
  alerts the message. Past the check, \<^verbatim>\<open>parsed.state\<close> is defined (the branch \<open>None\<close> of
  its \<open>case\<close> is never taken).
\<close>

definition onImportFile :: "int \<Rightarrow> App \<Rightarrow> rawString option \<Rightarrow> App" where
  "onImportFile now app file =
     (case file of
        None \<Rightarrow> app
      | Some t \<Rightarrow>
          (case JSON_parse t of
             Inl e \<Rightarrow> alert (message e) app
           | Inr parsed \<Rightarrow>
               if \<not> truthy_opt (optProp parsed ''state'') \<or> optProp parsed ''version'' \<noteq> Some (JNum 1)
               then alert (message (Error ''Invalid backup file.'')) app
               else
                 (case optProp parsed ''state'' of
                    None \<Rightarrow> app
                  | Some nextState \<Rightarrow>
                      let app1 = app\<lparr>appState := nextState\<rparr>
                      in case saveState (localStorage app1) nextState of
                           Inl e \<Rightarrow> alert (message e) app1
                         | Inr st1 \<Rightarrow>
                             alert ''Backup imported successfully.''
                               (pulseSaved now (app1\<lparr>localStorage := st1\<rparr>)))))"

text \<open>
  \<^verbatim>\<open>onImportFile\<close>, second variant: it also requires \<^verbatim>\<open>state.days\<close> and \<^verbatim>\<open>state.ui\<close>.
\<close>

definition onImportFile_strict :: "int \<Rightarrow> App \<Rightarrow> rawString option \<Rightarrow> App" where
  "onImportFile_strict now app file =
     (case file of
        None \<Rightarrow> app
      | Some t \<Rightarrow>
          (case JSON_parse t of
             Inl e \<Rightarrow> alert (message e) app
           | Inr parsed \<Rightarrow>
               if \<not> truthy_opt (optProp parsed ''state'') \<or> optProp parsed ''version'' \<noteq> Some (JNum 1)
               then alert (message (Error ''Invalid backup file.'')) app
               else
                 (case optProp parsed ''state'' of
                    None \<Rightarrow> app
                  | Some nextState \<Rightarrow>
                      if \<not> truthy_opt (optProp nextState ''days'')
                         \<or> \<not> truthy_opt (optProp nextState ''ui'')
                      then alert (message (Error ''Backup missing required fields.'')) app
                      else
                        let app1 = app\<lparr>appState := nextState\<rparr>
                        in case saveState (localStorage app1) nextState of
                             Inl e \<Rightarrow> alert (message e) app1
                           | Inr st1 \<Rightarrow>
                               alert ''Backup imported successfully.''
                                 (pulseSaved now (app1\<lparr>localStorage := st1\<rparr>)))))"

section \<open>The specification's formulas\<close>





text \<open>
  A clean day, in the specification's words: it has at least one logged urge and every
  urge in it is resisted. \<open>daysBack i d\<close> is the day \<open>i\<close> days before \<open>d\<close>, and \<open>noUrges\<close>
  holds of a day with zero urges, among them every day absent from the state.
\<close>

definition cleanDay :: "LockInState \<Rightarrow> Date \<Rightarrow> bool" where
  "cleanDay state d =
     (case map_of (days state) (dayKey d) of
        None \<Rightarrow> False
      | Some snap \<Rightarrow> urges snap \<noteq> [] \<and> list_all resisted (urges snap))"

definition daysBack :: "nat \<Rightarrow> Date \<Rightarrow> Date" where
  "daysBack i d = (setDate_prev ^^ i) d"

definition noUrges :: "LockInState \<Rightarrow> Date \<Rightarrow> bool" where
  "noUrges state d =
     (case map_of (days state) (dayKey d) of None \<Rightarrow> True | Some snap \<Rightarrow> urges snap = [])"

text \<open>
  The weekly rank as the specification words it: the slip days are the local calendar
  dates of the timestamps of the entries that were not resisted, \<open>resistedPct\<close> is
  \<open>100 * resisted / total\<close>, and the score is \<open>resistedPct\<close> minus 6 for each slip day,
  clamped and rounded.
\<close>

definition slipDates :: "(int \<Rightarrow> Date) \<Rightarrow> UrgeEntry list \<Rightarrow> Date set" where
  "slipDates zone es = (\<lambda>u. zone (ts u)) ` {u \<in> set es. \<not> resisted u}"

definition spec_resistedPct :: "UrgeEntry list \<Rightarrow> rat" where
  "spec_resistedPct es =
     (if es = [] then 0 else 100 * of_nat (length (filter resisted es)) / of_nat (length es))"

definition spec_weeklyScore :: "(int \<Rightarrow> Date) \<Rightarrow> UrgeEntry list \<Rightarrow> int" where
  "spec_weeklyScore zone es =
     round (clamp (spec_resistedPct es - 6 * of_nat (card (slipDates zone es))) 0 100)"

definition spec_rank :: "int \<Rightarrow> string" where
  "spec_rank s =
     (if s \<ge> 90 then ''CONTROLLED WEEK'' else if s \<ge> 75 then ''SOLID WEEK''
      else if s \<ge> 60 then ''UNSTABLE'' else ''RELAPSE WEEK'')"

text \<open>
  The weekly rank as amended: \<open>resistedPct\<close> is \<^verbatim>\<open>(resisted / total) * 100\<close> in the
  arithmetic of the program, the quotient first, and the subtraction is the program's.
\<close>

definition amended_resistedPct :: "UrgeEntry list \<Rightarrow> rat" where
  "amended_resistedPct es =
     (if es = [] then 0
      else fmul (fdiv (of_nat (length (filter resisted es))) (of_nat (length es))) 100)"

definition amended_weeklyScore :: "(int \<Rightarrow> Date) \<Rightarrow> UrgeEntry list \<Rightarrow> int" where
  "amended_weeklyScore zone es =
     round (clamp (fsub (amended_resistedPct es)
                        (fmul (of_nat (card (slipDates zone es))) 6)) 0 100)"

text \<open>A parsed value that is an object (not \<^verbatim>\<open>null\<close>, not an array, not a primitive).\<close>

definition isObject :: "json \<Rightarrow> bool" where
  "isObject v = (case v of JObj kvs \<Rightarrow> True | _ \<Rightarrow> False)"

section \<open>Proof devices\<close>

text \<open>Reading a decimal string back: the inverse of \<open>String_nat\<close>.\<close>

definition digitVal :: "char \<Rightarrow> nat" where
  "digitVal c = of_char c - 48"

definition decimalVal :: "string \<Rightarrow> nat" where
  "decimalVal s = foldl (\<lambda>acc c. 10 * acc + digitVal c) 0 s"

text \<open>The calendar order of dates (a proof device: each step back goes down in it).\<close>

definition calendarOrder :: "Date \<Rightarrow> int \<times> nat \<times> nat" where
  "calendarOrder d = (getFullYear d, getMonth d, getDate d)"

section \<open>Concrete inputs for the examples and witnesses\<close>

definition exampleUrge :: "bool \<Rightarrow> int \<Rightarrow> UrgeEntry" where
  "exampleUrge r t =
     \<lparr>id' = ''u'', type' = Gaming, customLabel = None, intensity = 3, resisted = r,
      note' = None, ts = t\<rparr>"

definition exampleDay :: "string \<Rightarrow> UrgeEntry list \<Rightarrow> DaySnapshot" where
  "exampleDay k us =
     \<lparr>day = k, energy = 3, mood = 3, sleep = 7, spent = 0, timeBlocks = None,
      missions = [], urges = us, updatedAt = 0\<rparr>"

definition exampleState :: LockInState where
  "exampleState =
     \<lparr>version = 1,
      days = [(''2026-11-01'', exampleDay ''2026-11-01'' [exampleUrge True 1793534400000]),
              (''2026-10-31'', exampleDay ''2026-10-31'' [exampleUrge True 1793448000000]),
              (''2026-10-30'', exampleDay ''2026-10-30'' []),
              (''2026-10-29'', exampleDay ''2026-10-29'' [exampleUrge True 1793275200000])],
      ui = \<lparr>tab = Tab_today\<rparr>\<rparr>"

definition exampleRef :: Date where
  "exampleRef = \<lparr>getFullYear = 2026, getMonth = 10, getDate = 1\<rparr>"

definition exampleWeek :: "UrgeEntry list" where
  "exampleWeek =
     [exampleUrge True 1793016000000, exampleUrge False 1793016000000,
      exampleUrge False 1793016000000, exampleUrge True 1793102400000,
      exampleUrge False 1793102400000, exampleUrge False 1793102400000,
      exampleUrge False 1793102400000, exampleUrge True 1793534400000,
      exampleUrge True 1793620800000, exampleUrge True 1793707200000]"

definition slipWeek :: "UrgeEntry list" where
  "slipWeek =
     replicate 23 (exampleUrge True 1793016000000)
     @ replicate 17 (exampleUrge False 1793016000000)"

definition exampleToday :: Date where
  "exampleToday = \<lparr>getFullYear = 2026, getMonth = 10, getDate = 3\<rparr>"

text \<open>A store that accepts every write, and one that refuses every write.\<close>

definition acceptingStore :: "(string \<times> rawString) list \<Rightarrow> Storage" where
  "acceptingStore kvs = \<lparr>items = map_of kvs, refuses = (\<lambda>k v. False)\<rparr>"

definition fullStore :: "(string \<times> rawString) list \<Rightarrow> Storage" where
  "fullStore kvs = \<lparr>items = map_of kvs, refuses = (\<lambda>k v. True)\<rparr>"

definition staleStateStore :: Storage where
  "staleStateStore =
     acceptingStore
       [(KEY_STATE, Encodes (JObj [(''version'', JNum 2), (''days'', JObj []),
                                   (''ui'', JObj [(''tab'', JStr ''weekly'')])]))]"

definition tablessStateStore :: Storage where
  "tablessStateStore =
     acceptingStore
       [(KEY_STATE, Encodes (JObj [(''version'', JNum 1),
                                   (''days'', JObj [(''2026-11-03'', DaySnapshot_json (exampleDay ''2026-11-03'' []))]),
                                   (''ui'', JObj [])]))]"

definition legacyEnergyStore :: Storage where
  "legacyEnergyStore = acceptingStore [(KEY_ENERGY, Encodes (JNum 4))]"

definition emptyStateStore :: Storage where
  "emptyStateStore = acceptingStore [(KEY_STATE, EmptyString), (KEY_ENERGY, Encodes (JNum 4))]"

definition migratedExample :: json where
  "migratedExample =
     JObj [(''version'', JNum 1),
           (''days'',
            JObj [(''Nov 3'',
                   JObj [(''day'', JStr ''Nov 3''), (''energy'', JNum 4), (''mood'', JNum 3),
                         (''sleep'', JNum 7), (''spent'', JNum 0),
                         (''timeBlocks'', JObj [(''am'', JStr ''''), (''pm'', JStr '''')]),
                         (''missions'',
                          JArr [JObj [(''text'', JStr ''''), (''done'', JBool False)],
                                JObj [(''text'', JStr ''''), (''done'', JBool False)],
                                JObj [(''text'', JStr ''''), (''done'', JBool False)]]),
                         (''urges'', JArr []), (''updatedAt'', JNum 1793707200000)])]),
           (''ui'', JObj [(''tab'', JStr ''today'')])]"

definition exampleApp :: "Storage \<Rightarrow> App" where
  "exampleApp st =
     \<lparr>appState = LockInState_json exampleState, localStorage = st, savedPulse = ''idle'',
      savedAt = None, alerts = []\<rparr>"

definition wrongVersionBackup :: json where
  "wrongVersionBackup =
     JObj [(''version'', JNum 2), (''exportedAt'', JNum 1793707200000),
           (''state'', LockInState_json defaultState)]"

definition statelessBackup :: json where
  "statelessBackup = JObj [(''version'', JNum 1), (''exportedAt'', JNum 1793707200000)]"

section \<open>Properties of the scoring engine\<close>

subsection \<open>Day keys are injective\<close>

lemma digit_nth: "k < 10 \<Longrightarrow> digitVal (''0123456789'' ! k) = k"
proof -
  assume "k < 10"
  then have "k = 0 \<or> k = 1 \<or> k = 2 \<or> k = 3 \<or> k = 4 \<or> k = 5 \<or> k = 6
    \<or> k = 7 \<or> k = 8 \<or> k = 9" by arith
  then show ?thesis by (elim disjE) (simp_all add: digitVal_def)
qed

lemma digit_nth_in: "k < 10 \<Longrightarrow> ''0123456789'' ! k \<in> set ''0123456789''"
  by (rule nth_mem) simp

lemma decimalVal_snoc: "decimalVal (s @ [c]) = 10 * decimalVal s + digitVal c"
  by (simp add: decimalVal_def)

lemma decimalVal_String_nat: "decimalVal (String_nat n) = n"
proof (induction n rule: String_nat.induct)
  case (1 n)
  show ?case
  proof (cases "n < 10")
    case True
    then show ?thesis by (subst String_nat.simps) (simp add: decimalVal_def digit_nth)
  next
    case False
    then have "decimalVal (String_nat (n div 10)) = n div 10" using 1 by simp
    with False show ?thesis
      by (subst String_nat.simps) (simp add: decimalVal_snoc digit_nth)
  qed
qed

lemma String_nat_digits: "set (String_nat n) \<subseteq> set ''0123456789''"
proof (induction n rule: String_nat.induct)
  case (1 n)
  show ?case
  proof (cases "n < 10")
    case True
    then show ?thesis using digit_nth_in [of n] by (subst String_nat.simps) simp
  next
    case False
    then have "set (String_nat (n div 10)) \<subseteq> set ''0123456789''" using 1 by simp
    moreover have "''0123456789'' ! (n mod 10) \<in> set ''0123456789''"
      by (rule digit_nth_in) simp
    ultimately show ?thesis using False by (subst String_nat.simps) simp
  qed
qed

lemma String_nat_inj: "String_nat a = String_nat b \<Longrightarrow> a = b"
  by (metis decimalVal_String_nat)

lemma decimalVal_zeros: "decimalVal (replicate k (CHR ''0'') @ s) = decimalVal s"
  by (induction k) (simp_all add: decimalVal_def digitVal_def)

lemma decimalVal_padStart2: "decimalVal (padStart2 (String_nat n)) = n"
  by (simp add: padStart2_def decimalVal_zeros decimalVal_String_nat)

lemma padStart2_digits: "set (padStart2 (String_nat n)) \<subseteq> set ''0123456789''"
  using String_nat_digits [of n] by (auto simp: padStart2_def)

lemma String_nat_no_dash: "String_nat n \<noteq> CHR ''-'' # s"
proof
  assume "String_nat n = CHR ''-'' # s"
  then have "CHR ''-'' \<in> set (String_nat n)" by simp
  then have "CHR ''-'' \<in> set ''0123456789''" using String_nat_digits by blast
  then show False by simp
qed

lemma String_int_inj: "String_int a = String_int b \<Longrightarrow> a = b"
proof -
  assume eq: "String_int a = String_int b"
  show ?thesis
  proof (cases "a < 0")
    case True
    note a = this
    show ?thesis
    proof (cases "b < 0")
      case True
      with a eq have "nat (- a) = nat (- b)" by (simp add: String_int_def String_nat_inj)
      with a True show ?thesis by simp
    next
      case False
      with a eq have "String_nat (nat b) = CHR ''-'' # String_nat (nat (- a))"
        by (simp add: String_int_def)
      then show ?thesis using String_nat_no_dash by blast
    qed
  next
    case False
    note a = this
    show ?thesis
    proof (cases "b < 0")
      case True
      with a eq have "String_nat (nat a) = CHR ''-'' # String_nat (nat (- b))"
        by (simp add: String_int_def)
      then show ?thesis using String_nat_no_dash by blast
    next
      case False
      with a eq have "nat a = nat b" by (simp add: String_int_def String_nat_inj)
      with a False show ?thesis by simp
    qed
  qed
qed

lemma padStart2_no_dash: "CHR ''-'' \<notin> set (rev (padStart2 (String_nat n)))"
proof
  assume "CHR ''-'' \<in> set (rev (padStart2 (String_nat n)))"
  then have "CHR ''-'' \<in> set (padStart2 (String_nat n))" by simp
  then have "CHR ''-'' \<in> set ''0123456789''" using padStart2_digits by blast
  then show False by simp
qed

lemma padStart2_inj: "padStart2 (String_nat a) = padStart2 (String_nat b) \<Longrightarrow> a = b"
proof -
  assume "padStart2 (String_nat a) = padStart2 (String_nat b)"
  then have "decimalVal (padStart2 (String_nat a)) = decimalVal (padStart2 (String_nat b))"
    by (rule arg_cong)
  then show "a = b" by (simp only: decimalVal_padStart2)
qed

lemma split_at_first:
  "x \<notin> set xs \<Longrightarrow> x \<notin> set ys \<Longrightarrow> xs @ x # r = ys @ x # r' \<Longrightarrow> xs = ys \<and> r = r'"
proof (induction xs arbitrary: ys)
  case Nil
  then show ?case by (cases ys) auto
next
  case (Cons a xs)
  then show ?case by (cases ys) auto
qed

lemma dayKey_inj: "dayKey a = dayKey b \<Longrightarrow> a = b"
proof -
  assume eq: "dayKey a = dayKey b"
  define Da where "Da = rev (padStart2 (String_nat (getDate a)))"
  define Db where "Db = rev (padStart2 (String_nat (getDate b)))"
  define Ma where "Ma = rev (padStart2 (String_nat (getMonth a + 1)))"
  define Mb where "Mb = rev (padStart2 (String_nat (getMonth b + 1)))"
  define Ya where "Ya = rev (String_int (getFullYear a))"
  define Yb where "Yb = rev (String_int (getFullYear b))"
  have nd: "CHR ''-'' \<notin> set Da" "CHR ''-'' \<notin> set Db" "CHR ''-'' \<notin> set Ma" "CHR ''-'' \<notin> set Mb"
    unfolding Da_def Db_def Ma_def Mb_def by (rule padStart2_no_dash)+
  have "rev (dayKey a) = rev (dayKey b)" using eq by simp
  then have e: "Da @ CHR ''-'' # (Ma @ CHR ''-'' # Ya) = Db @ CHR ''-'' # (Mb @ CHR ''-'' # Yb)"
    unfolding dayKey_def Da_def Db_def Ma_def Mb_def Ya_def Yb_def by simp
  have 1: "Da = Db \<and> Ma @ CHR ''-'' # Ya = Mb @ CHR ''-'' # Yb"
    using nd(1) nd(2) e by (rule split_at_first)
  then have 2: "Ma = Mb \<and> Ya = Yb"
    using split_at_first [OF nd(3) nd(4)] by blast
  from 1 have "getDate a = getDate b"
    unfolding Da_def Db_def by (simp add: padStart2_inj)
  moreover from 2 have "getMonth a + 1 = getMonth b + 1"
    unfolding Ma_def Mb_def by (simp only: rev_is_rev_conv padStart2_inj)
  moreover from 2 have "getFullYear a = getFullYear b"
    unfolding Ya_def Yb_def by (simp add: String_int_inj)
  ultimately show ?thesis by simp
qed

subsection \<open>Rounding and clamping\<close>


lemma pct_round_clamp: "pct x = round (clamp x 0 100)"
proof -
  consider "x \<le> 0" | "0 < x" "x < 100" | "100 \<le> x" by linarith
  then show ?thesis
  proof cases
    case 1
    then have "round x \<le> round (0::rat)" by (rule round_mono)
    with 1 show ?thesis by (simp add: pct_def clamp_def max_def min_def)
  next
    case 2
    then have "0 \<le> round x" "round x \<le> 100"
      using round_mono [of 0 x] round_mono [of x 100] by simp_all
    with 2 show ?thesis by (simp add: pct_def clamp_def max_def min_def)
  next
    case 3
    then have "round (100::rat) \<le> round x" by (rule round_mono)
    with 3 show ?thesis by (simp add: pct_def clamp_def max_def min_def)
  qed
qed

subsection \<open>Rounding to a double\<close>







subsection \<open>The percentage of a self-rating\<close>




subsection \<open>The daily score\<close>


subsection \<open>The streak loop\<close>

lemma setDate_prev_less: "calendarOrder (setDate_prev d) < calendarOrder d"
  by (simp add: calendarOrder_def setDate_prev_def less_prod_def)

lemma streakLoop_step:
  "streakLoop state cur n =
     (if cleanDay state cur then streakLoop state (setDate_prev cur) (n + 1) else Some n)"
  by (subst streakLoop.simps) (simp add: cleanDay_def Let_def split: option.split)

lemma cleanDay_key: "cleanDay state d \<Longrightarrow> dayKey d \<in> fst ` set (days state)"
  by (auto simp: cleanDay_def split: option.splits dest: map_of_SomeD intro: rev_image_eqI)

lemma daysBack_Suc: "daysBack (Suc i) d = daysBack i (setDate_prev d)"
  by (simp add: daysBack_def funpow_swap1)

lemma streakLoop_returns:
  assumes "finite K" "card K = c"
    and "\<And>d. calendarOrder d \<le> calendarOrder cur \<Longrightarrow> cleanDay state d \<Longrightarrow> dayKey d \<in> K"
  shows "\<exists>m. streakLoop state cur n = Some (n + m) \<and> m \<le> c
           \<and> (\<forall>i<m. cleanDay state (daysBack i cur)) \<and> \<not> cleanDay state (daysBack m cur)"
  using assms
proof (induction c arbitrary: K cur n)
  case 0
  then have "K = {}" by simp
  with 0 have "\<not> cleanDay state cur" by fastforce
  then have "streakLoop state cur n = Some (n + 0) \<and> (0::nat) \<le> 0
      \<and> (\<forall>i<0. cleanDay state (daysBack i cur)) \<and> \<not> cleanDay state (daysBack 0 cur)"
    by (subst streakLoop_step) (simp add: daysBack_def)
  then show ?case by blast
next
  case (Suc c)
  show ?case
  proof (cases "cleanDay state cur")
    case False
    then have "streakLoop state cur n = Some (n + 0) \<and> (0::nat) \<le> Suc c
        \<and> (\<forall>i<0. cleanDay state (daysBack i cur)) \<and> \<not> cleanDay state (daysBack 0 cur)"
      by (subst streakLoop_step) (simp add: daysBack_def)
    then show ?thesis by blast
  next
    case True
    let ?K = "K - {dayKey cur}"
    have in_K: "dayKey cur \<in> K" using Suc.prems(3) [of cur] True by simp
    have fin: "finite ?K" using Suc.prems(1) by simp
    have card: "card ?K = c" using Suc.prems(1,2) in_K by simp
    have below: "dayKey d \<in> ?K"
      if "calendarOrder d \<le> calendarOrder (setDate_prev cur)" "cleanDay state d" for d
    proof -
      have lt: "calendarOrder d < calendarOrder cur"
        using that(1) setDate_prev_less [of cur] by (rule le_less_trans)
      then have "dayKey d \<in> K" using Suc.prems(3) [of d] that(2) by simp
      moreover have "d \<noteq> cur" using lt by auto
      then have "dayKey d \<noteq> dayKey cur" using dayKey_inj by blast
      ultimately show ?thesis by simp
    qed
    obtain m where m: "streakLoop state (setDate_prev cur) (n + 1) = Some (n + 1 + m)"
      "m \<le> c" "\<forall>i<m. cleanDay state (daysBack i (setDate_prev cur))"
      "\<not> cleanDay state (daysBack m (setDate_prev cur))"
      using Suc.IH [OF fin card below] by blast
    have "streakLoop state cur n = Some (n + Suc m)"
      using True m(1) by (subst streakLoop_step) simp
    moreover have "\<forall>i<Suc m. cleanDay state (daysBack i cur)"
    proof (intro allI impI)
      fix i assume "i < Suc m"
      show "cleanDay state (daysBack i cur)"
      proof (cases i)
        case 0
        then show ?thesis using True by (simp add: daysBack_def)
      next
        case (Suc j)
        then show ?thesis using m(3) \<open>i < Suc m\<close> by (simp add: daysBack_Suc)
      qed
    qed
    moreover have "\<not> cleanDay state (daysBack (Suc m) cur)"
      using m(4) by (simp add: daysBack_Suc)
    ultimately show ?thesis using m(2) by (intro exI [of _ "Suc m"]) simp
  qed
qed

lemma calcStreak_result:
  "\<exists>m. calcStreakFromState state ref = Some m \<and> m \<le> card (fst ` set (days state))
     \<and> (\<forall>i<m. cleanDay state (daysBack i ref)) \<and> \<not> cleanDay state (daysBack m ref)"
  using streakLoop_returns [of "fst ` set (days state)" "card (fst ` set (days state))" ref state 0]
    cleanDay_key
  by (simp add: calcStreakFromState_def)

lemma noUrges_not_clean: "noUrges state d \<Longrightarrow> \<not> cleanDay state d"
  by (simp add: noUrges_def cleanDay_def split: option.splits)

text \<open>
  C7. For every state and reference date, \<open>calcStreakFromState\<close> returns the number \<open>m\<close>
  of consecutive clean days walking backward day by day from the reference date: the
  days \<open>0, ..., m - 1\<close> back are clean (at least one logged urge, every urge resisted)
  and the day \<open>m\<close> back, where the walk stops, is not. A day with zero urges, a day absent
  from the state included, breaks the streak and is not skipped: if the day \<open>k\<close> back has
  no urges then \<open>m \<le> k\<close>.
\<close>

theorem calcStreakFromState_counts_clean_run:
  "\<exists>m. calcStreakFromState state ref = Some m
     \<and> (\<forall>i<m. cleanDay state (daysBack i ref))
     \<and> \<not> cleanDay state (daysBack m ref)
     \<and> (\<forall>k. noUrges state (daysBack k ref) \<longrightarrow> m \<le> k)"
proof -
  obtain m where m: "calcStreakFromState state ref = Some m"
    "\<forall>i<m. cleanDay state (daysBack i ref)" "\<not> cleanDay state (daysBack m ref)"
    using calcStreak_result [of state ref] by blast
  have "m \<le> k" if "noUrges state (daysBack k ref)" for k
  proof (rule ccontr)
    assume "\<not> m \<le> k"
    then have "cleanDay state (daysBack k ref)" using m(2) by simp
    then show False using that noUrges_not_clean by blast
  qed
  with m show ?thesis by blast
qed

lemmas dayKey_eval = dayKey_def String_int_def String_nat.simps padStart2_def

lemma example_keys:
  "dayKey exampleRef = ''2026-11-01''"
  "dayKey (setDate_prev exampleRef) = ''2026-10-31''"
  "dayKey (setDate_prev (setDate_prev exampleRef)) = ''2026-10-30''"
  by (simp_all add: exampleRef_def setDate_prev_def daysInMonth_def dayKey_eval)

lemma example_clean:
  "cleanDay exampleState (daysBack 0 exampleRef)"
  "cleanDay exampleState (daysBack 1 exampleRef)"
  "noUrges exampleState (daysBack 2 exampleRef)"
  by (simp_all add: daysBack_def numeral_2_eq_2 cleanDay_def noUrges_def example_keys
      exampleState_def exampleDay_def exampleUrge_def)

theorem calcStreakFromState_counts_clean_run_witness:
  "calcStreakFromState exampleState exampleRef = Some 2
   \<and> noUrges exampleState (daysBack 2 exampleRef)"
proof -
  obtain m where m: "calcStreakFromState exampleState exampleRef = Some m"
    "\<not> cleanDay exampleState (daysBack m exampleRef)"
    "\<forall>k. noUrges exampleState (daysBack k exampleRef) \<longrightarrow> m \<le> k"
    using calcStreakFromState_counts_clean_run [of exampleState exampleRef] by blast
  have "m \<le> 2" using m(3) example_clean(3) by blast
  moreover have "m \<noteq> 0"
  proof
    assume "m = 0"
    with m(2) example_clean(1) show False by simp
  qed
  moreover have "m \<noteq> 1"
  proof
    assume "m = 1"
    with m(2) example_clean(2) show False by simp
  qed
  ultimately have "m = 2" by simp
  with m(1) example_clean(3) show ?thesis by simp
qed

text \<open>
  C10. \<open>calcStreakFromState\<close> terminates on every state (its days map is an object,
  hence finite): it returns a natural number bounded by the number of stored days. The
  loop ends on the day one step past the run of clean days, and any day key absent from
  the map ends it at once.
\<close>

theorem calcStreakFromState_terminates:
  "\<exists>m. calcStreakFromState state ref = Some m
     \<and> m \<le> card (fst ` set (days state))
     \<and> card (fst ` set (days state)) \<le> length (days state)
     \<and> streakLoop state (daysBack m ref) m = Some m
     \<and> (\<forall>cur n. map_of (days state) (dayKey cur) = None \<longrightarrow> streakLoop state cur n = Some n)"
proof -
  obtain m where m: "calcStreakFromState state ref = Some m"
    "m \<le> card (fst ` set (days state))" "\<not> cleanDay state (daysBack m ref)"
    using calcStreak_result [of state ref] by blast
  have "card (fst ` set (days state)) \<le> length (days state)"
    using card_image_le [of "set (days state)" fst] card_length [of "days state"]
    by simp
  moreover have "streakLoop state (daysBack m ref) m = Some m"
    using m(3) by (subst streakLoop_step) simp
  moreover have "streakLoop state cur n = Some n"
    if "map_of (days state) (dayKey cur) = None" for cur n
    using that by (subst streakLoop_step) (simp add: cleanDay_def)
  ultimately show ?thesis using m(1,2) by blast
qed

theorem calcStreakFromState_terminates_witness:
  "map_of (days exampleState) (dayKey \<lparr>getFullYear = 2026, getMonth = 9, getDate = 28\<rparr>) = None
   \<and> streakLoop exampleState \<lparr>getFullYear = 2026, getMonth = 9, getDate = 28\<rparr> 7 = Some 7"
proof -
  let ?d = "\<lparr>getFullYear = 2026, getMonth = 9, getDate = 28\<rparr>"
  have absent: "map_of (days exampleState) (dayKey ?d) = None"
    by (simp add: exampleState_def dayKey_eval)
  from calcStreakFromState_terminates [of exampleState exampleRef]
  have "map_of (days exampleState) (dayKey ?d) = None
          \<longrightarrow> streakLoop exampleState ?d 7 = Some 7"
    by blast
  with absent show ?thesis by simp
qed

subsection \<open>The weekly rank\<close>

lemma slipDays_foldl:
  "distinct acc \<Longrightarrow>
   distinct (foldl (\<lambda>S u. if \<not> resisted u then List.insert (dayKey (zone (ts u))) S else S) acc es)
   \<and> set (foldl (\<lambda>S u. if \<not> resisted u then List.insert (dayKey (zone (ts u))) S else S) acc es)
       = set acc \<union> dayKey ` slipDates zone es"
proof (induction es arbitrary: acc)
  case Nil
  then show ?case by (simp add: slipDates_def)
next
  case (Cons u es)
  have sd: "slipDates zone (u # es)
      = (if \<not> resisted u then insert (zone (ts u)) (slipDates zone es) else slipDates zone es)"
    by (auto simp: slipDates_def)
  show ?case
  proof (cases "resisted u")
    case True
    then show ?thesis using Cons.IH [OF Cons.prems] sd by simp
  next
    case False
    have "distinct (List.insert (dayKey (zone (ts u))) acc)" using Cons.prems by simp
    from Cons.IH [OF this] False sd show ?thesis by auto
  qed
qed

lemma slipDays_length:
  "length (foldl (\<lambda>S u. if \<not> resisted u then List.insert (dayKey (zone (ts u))) S else S) [] es)
   = card (slipDates zone es)"
proof -
  let ?l = "foldl (\<lambda>S u. if \<not> resisted u then List.insert (dayKey (zone (ts u))) S else S) [] es"
  have d: "distinct ?l" and s: "set ?l = dayKey ` slipDates zone es"
    using slipDays_foldl [of "[]" zone es] by simp_all
  have "length ?l = card (set ?l)" using d by (simp add: distinct_card)
  also have "\<dots> = card (dayKey ` slipDates zone es)" using s by simp
  also have "\<dots> = card (slipDates zone es)"
    by (rule card_image) (auto simp: inj_on_def dest: dayKey_inj)
  finally show ?thesis .
qed

lemma round_clamp_pct: "max 0 (min 100 (round x)) = round (clamp x 0 100)"
  using pct_round_clamp [of x] by (simp add: pct_def)

lemma weekly_resistedPct:
  "(if length es \<noteq> 0
    then fmul (fdiv (of_nat (length (filter resisted es))) (of_nat (length es))) 100 else 0)
   = amended_resistedPct es"
  by (simp add: amended_resistedPct_def)

lemma calcWeeklyRank_fields:
  "score_week (calcWeeklyRank zone es) = amended_weeklyScore zone es"
  "rank (calcWeeklyRank zone es) = spec_rank (amended_weeklyScore zone es)"
  "resistedPct (calcWeeklyRank zone es) = round (amended_resistedPct es)"
  "slipDays (calcWeeklyRank zone es) = card (slipDates zone es)"
  unfolding calcWeeklyRank_def Let_def slipDays_length weekly_resistedPct round_clamp_pct
  by (simp_all add: amended_weeklyScore_def spec_rank_def)

lemma slipDates_list:
  "slipDates zone es = set (map (\<lambda>u. zone (ts u)) (filter (\<lambda>u. \<not> resisted u) es))"
  by (auto simp: slipDates_def)

text \<open>
  C8 as stated fails. With 40 entries, 23 of them resisted and the other 17 on one day,
  \<open>100 * resisted / total\<close> is 57.5 (as a real number, and in double arithmetic too) and
  the claim's score is \<open>round (57.5 - 6) = 52\<close>. The code computes
  \<^verbatim>\<open>(23 / 40) * 100\<close>, which is the double just below 57.5, and returns the score 51
  (and 57 as the rounded percentage).
\<close>

theorem calcWeeklyRank_order_counterexample:
  "length slipWeek = 40 \<and> length (filter resisted slipWeek) = 23
   \<and> card (slipDates utcDate slipWeek) = 1
   \<and> spec_resistedPct slipWeek = 115 / 2
   \<and> fdiv (fmul 100 23) 40 = 115 / 2
   \<and> spec_weeklyScore utcDate slipWeek = 52
   \<and> score_week (calcWeeklyRank utcDate slipWeek) = 51
   \<and> resistedPct (calcWeeklyRank utcDate slipWeek) = 57"
proof -
  have n: "length slipWeek = 40" "length (filter resisted slipWeek) = 23" "slipWeek \<noteq> []"
    by (simp_all add: slipWeek_def exampleUrge_def)
  have c: "card (slipDates utcDate slipWeek) = 1"
    unfolding slipDates_list by (simp add: slipWeek_def exampleUrge_def)
  have p: "spec_resistedPct slipWeek = 115 / 2"
    using n by (simp add: spec_resistedPct_def)
  have "round (clamp (115 / 2 - 6 * 1) 0 100 :: rat) = 52" by code_simp
  then have s: "spec_weeklyScore utcDate slipWeek = 52"
    by (simp add: spec_weeklyScore_def p c)
  have a: "amended_resistedPct slipWeek = fmul (fdiv 23 40) 100"
    using n by (simp add: amended_resistedPct_def)
  have "round (clamp (fsub (fmul (fdiv 23 40) 100) (fmul 1 6)) 0 100) = 51" by code_simp
  then have 1: "amended_weeklyScore utcDate slipWeek = 51"
    by (simp add: amended_weeklyScore_def a c)
  have "round (fmul (fdiv 23 40) 100) = 57" by code_simp
  then have 2: "round (amended_resistedPct slipWeek) = 57" by (simp add: a)
  have d: "fdiv (fmul 100 23) 40 = 115 / 2" by code_simp
  from n c p s 1 2 show ?thesis unfolding d by (simp add: calcWeeklyRank_fields)
qed

text \<open>
  C8, amended. For every list of week entries, \<open>calcWeeklyRank\<close> computes
  \<open>resistedPct = (resisted / total) * 100\<close> in double arithmetic, the quotient first (0
  for the empty list), and returns as score \<open>resistedPct\<close> minus 6 times the number of
  distinct local calendar dates that hold an entry not resisted, clamped to \<open>[0, 100]\<close>
  and rounded; the rank follows the bands of the daily grade, and the field
  \<open>resistedPct\<close> of the result is that percentage, rounded. With 10 entries, 5 of them
  resisted and the other 5 on 2 distinct days, \<open>resistedPct\<close> is 50, the score is 38 and
  the rank is RELAPSE WEEK.
\<close>

theorem calcWeeklyRank_score:
  "score_week (calcWeeklyRank zone es) = amended_weeklyScore zone es
   \<and> rank (calcWeeklyRank zone es) = spec_rank (amended_weeklyScore zone es)
   \<and> slipDays (calcWeeklyRank zone es) = card (slipDates zone es)
   \<and> resistedPct (calcWeeklyRank zone es) = round (amended_resistedPct es)
   \<and> (length es = 10 \<and> length (filter resisted es) = 5 \<and> card (slipDates zone es) = 2
        \<longrightarrow> amended_resistedPct es = 50 \<and> score_week (calcWeeklyRank zone es) = 38
            \<and> rank (calcWeeklyRank zone es) = ''RELAPSE WEEK'')"
proof -
  have "amended_resistedPct es = 50 \<and> amended_weeklyScore zone es = 38
        \<and> spec_rank (amended_weeklyScore zone es) = ''RELAPSE WEEK''"
    if "length es = 10" "length (filter resisted es) = 5" "card (slipDates zone es) = 2"
  proof -
    have "es \<noteq> []" using that(1) by auto
    moreover have "fmul (fdiv 5 10) 100 = 50" by code_simp
    ultimately have p: "amended_resistedPct es = 50"
      using that(1,2) by (simp add: amended_resistedPct_def)
    have "round (clamp (fsub 50 (fmul 2 6)) 0 100) = 38" by code_simp
    then have "amended_weeklyScore zone es = 38"
      using that(3) p by (simp add: amended_weeklyScore_def)
    with p show ?thesis by (simp add: spec_rank_def)
  qed
  then show ?thesis unfolding calcWeeklyRank_fields by blast
qed

lemma exampleWeek_slipDates:
  "slipDates utcDate exampleWeek
   = {\<lparr>getFullYear = 2026, getMonth = 9, getDate = 26\<rparr>,
      \<lparr>getFullYear = 2026, getMonth = 9, getDate = 27\<rparr>}"
proof -
  have z: "utcDate 1793016000000 = \<lparr>getFullYear = 2026, getMonth = 9, getDate = 26\<rparr>"
    "utcDate 1793102400000 = \<lparr>getFullYear = 2026, getMonth = 9, getDate = 27\<rparr>"
    by code_simp+
  show ?thesis
    unfolding slipDates_list by (simp add: exampleWeek_def exampleUrge_def z)
qed

theorem calcWeeklyRank_score_witness:
  "length exampleWeek = 10 \<and> length (filter resisted exampleWeek) = 5
   \<and> card (slipDates utcDate exampleWeek) = 2
   \<and> score_week (calcWeeklyRank utcDate exampleWeek) = 38
   \<and> rank (calcWeeklyRank utcDate exampleWeek) = ''RELAPSE WEEK''"
proof -
  have h: "length exampleWeek = 10" "length (filter resisted exampleWeek) = 5"
    by (simp_all add: exampleWeek_def exampleUrge_def)
  have c: "card (slipDates utcDate exampleWeek) = 2"
    by (simp add: exampleWeek_slipDates)
  from calcWeeklyRank_score [of utcDate exampleWeek] h c show ?thesis by blast
qed

section \<open>Properties of the persistence gateway and of the shell\<close>

subsection \<open>getDay after upsertDay\<close>

text \<open>
  C5. For every state \<open>s\<close> and every day snapshot \<open>d\<close>, \<open>getDay (upsertDay s d) (day d)\<close> is
  \<open>d\<close> with \<open>updatedAt\<close> set to the current time and every other field as in \<open>d\<close>.
  \<open>upsertDay\<close> builds its result with spread expressions only and assigns to no
  property of \<open>s\<close>, of its days or of \<open>d\<close>: it is a function of its arguments, and the
  result carries the version, the preferences and every other day of \<open>s\<close> as they are.
\<close>

theorem upsertDay_getDay:
  "getDay t (upsertDay now s d) (day d) = Inr (d\<lparr>updatedAt := now\<rparr>)
   \<and> version (upsertDay now s d) = version s
   \<and> ui (upsertDay now s d) = ui s
   \<and> (\<forall>k. k \<noteq> day d \<longrightarrow> map_of (days (upsertDay now s d)) k = map_of (days s) k)"
  by (simp add: getDay_def upsertDay_def update_conv')

theorem upsertDay_getDay_witness:
  "getDay 5 (upsertDay 1793707200000 exampleState (exampleDay ''2026-11-03'' [])) ''2026-11-03''
     = Inr ((exampleDay ''2026-11-03'' [])\<lparr>updatedAt := 1793707200000\<rparr>)
   \<and> map_of (days (upsertDay 1793707200000 exampleState (exampleDay ''2026-11-03'' []))) ''2026-11-01''
     = map_of (days exampleState) ''2026-11-01''"
proof -
  have "''2026-11-01'' \<noteq> day (exampleDay ''2026-11-03'' [])" by (simp add: exampleDay_def)
  moreover have "day (exampleDay ''2026-11-03'' []) = ''2026-11-03''" by (simp add: exampleDay_def)
  ultimately show ?thesis
    using upsertDay_getDay [of 5 1793707200000 exampleState "exampleDay ''2026-11-03'' []"]
    by metis
qed

subsection \<open>Round trip\<close>

lemma Tab_json_truthy: "truthy (Tab_json t)"
  by (cases t) simp_all

lemma loadState_of_saved:
  assumes "version s = SCHEMA_VERSION" "getItem st KEY_STATE = Some (Encodes (LockInState_json s))"
  shows "loadState now today_v st = Inr (LockInState_json s, st)"
  using assms
  by (simp add: loadState_def Let_def safeParse_def JSON_parse_def LockInState_json_def
      optProp_def optChain_def truthy_opt_def Tab_json_truthy)

text \<open>
  C4. For every state \<open>s\<close> that carries the current schema version, if \<open>saveState\<close>
  writes \<open>s\<close> (the store accepts the write), then \<open>loadState\<close> on the resulting store
  returns the value of \<open>s\<close>, field by field, and leaves the store as it is.
\<close>

theorem saveState_loadState_roundtrip:
  "version s = SCHEMA_VERSION \<Longrightarrow> saveState st (LockInState_json s) = Inr st1 \<Longrightarrow>
   loadState now today_v st1 = Inr (LockInState_json s, st1)"
proof -
  assume v: "version s = SCHEMA_VERSION" and sv: "saveState st (LockInState_json s) = Inr st1"
  from sv have "getItem st1 KEY_STATE = Some (Encodes (LockInState_json s))"
    by (auto simp: saveState_def setItem_def getItem_def JSON_stringify_def split: if_splits)
  with v show ?thesis by (rule loadState_of_saved)
qed

theorem saveState_loadState_roundtrip_witness:
  "version exampleState = SCHEMA_VERSION
   \<and> saveState (acceptingStore []) (LockInState_json exampleState)
       = Inr (acceptingStore [(KEY_STATE, Encodes (LockInState_json exampleState))])
   \<and> loadState 0 exampleToday (acceptingStore [(KEY_STATE, Encodes (LockInState_json exampleState))])
       = Inr (LockInState_json exampleState,
              acceptingStore [(KEY_STATE, Encodes (LockInState_json exampleState))])"
proof -
  have v: "version exampleState = SCHEMA_VERSION"
    by (simp add: exampleState_def SCHEMA_VERSION_def)
  have s: "saveState (acceptingStore []) (LockInState_json exampleState)
       = Inr (acceptingStore [(KEY_STATE, Encodes (LockInState_json exampleState))])"
    by (simp add: saveState_def setItem_def acceptingStore_def JSON_stringify_def)
  from saveState_loadState_roundtrip [OF v s] v s show ?thesis by simp
qed

subsection \<open>loadState on a stored string\<close>

lemma loadState_parsed:
  assumes "getItem st KEY_STATE = Some (Encodes v)"
  shows "loadState now today_v st =
     (if \<not> truthy v \<or> \<not> typeofObject v then Inr (LockInState_json defaultState, st)
      else if \<not> hasProp ''version'' v \<or> \<not> hasProp ''days'' v \<or> \<not> hasProp ''ui'' v
        then Inr (LockInState_json defaultState, st)
      else if optProp v ''version'' \<noteq> Some (JNum (of_nat SCHEMA_VERSION))
        then Inr (LockInState_json defaultState, st)
      else if \<not> truthy_opt (optChain (optProp v ''ui'') ''tab'')
        then Inr (JObj (AList.update ''ui'' (JObj [(''tab'', JStr ''today'')]) (objProps v)), st)
      else Inr (v, st))"
  using assms by (simp add: loadState_def Let_def safeParse_def JSON_parse_def)

lemma loadState_unparsable:
  assumes "getItem st KEY_STATE = Some Unparsable"
  shows "loadState now today_v st = Inr (LockInState_json defaultState, st)"
  using assms
  by (simp add: loadState_def Let_def safeParse_def JSON_parse_def LockInState_json_def
      defaultState_def optProp_def optChain_def truthy_opt_def)

lemma not_object_default:
  assumes "getItem st KEY_STATE = Some (Encodes v)" "\<not> isObject v"
  shows "loadState now today_v st = Inr (LockInState_json defaultState, st)"
  using assms by (cases v) (simp_all add: loadState_parsed isObject_def)

text \<open>
  C3, amended. For every stored string at the canonical key that is not empty: if it is
  unparsable JSON, or parses to a value that is not an object, or lacks any of the
  top-level fields version, days and ui, or has a version other than the schema
  constant, then \<open>loadState\<close> returns the fresh default state (empty days map, tab
  "today") and writes nothing; and if it parses to an object with the three fields and
  the current version whose \<open>ui.tab\<close> is absent, then \<open>loadState\<close> returns that object
  with \<open>ui\<close> set to \<open>{tab: "today"}\<close>, the days map and every other field unchanged.
\<close>

theorem loadState_fallback_and_backfill:
  "getItem st KEY_STATE = Some raw \<Longrightarrow> raw \<noteq> EmptyString \<Longrightarrow>
   (((\<exists>e. JSON_parse raw = Inl e)
       \<or> (\<exists>v. JSON_parse raw = Inr v
             \<and> (\<not> isObject v \<or> \<not> hasProp ''version'' v \<or> \<not> hasProp ''days'' v \<or> \<not> hasProp ''ui'' v
                 \<or> optProp v ''version'' \<noteq> Some (JNum (of_nat SCHEMA_VERSION)))))
      \<longrightarrow> loadState now today_v st = Inr (LockInState_json defaultState, st))
   \<and> (\<forall>kvs. JSON_parse raw = Inr (JObj kvs)
          \<and> hasProp ''version'' (JObj kvs) \<and> hasProp ''days'' (JObj kvs) \<and> hasProp ''ui'' (JObj kvs)
          \<and> map_of kvs ''version'' = Some (JNum (of_nat SCHEMA_VERSION))
          \<and> optChain (map_of kvs ''ui'') ''tab'' = None
        \<longrightarrow> (\<exists>kvs'. loadState now today_v st = Inr (JObj kvs', st)
                 \<and> kvs' = AList.update ''ui'' (JObj [(''tab'', JStr ''today'')]) kvs
                 \<and> map_of kvs' ''ui'' = Some (JObj [(''tab'', JStr ''today'')])
                 \<and> map_of kvs' ''days'' = map_of kvs ''days''
                 \<and> (\<forall>name. name \<noteq> ''ui'' \<longrightarrow> map_of kvs' name = map_of kvs name)))"
proof -
  assume raw: "getItem st KEY_STATE = Some raw" and ne: "raw \<noteq> EmptyString"
  have 1: "loadState now today_v st = Inr (LockInState_json defaultState, st)"
    if "(\<exists>e. JSON_parse raw = Inl e)
       \<or> (\<exists>v. JSON_parse raw = Inr v
             \<and> (\<not> isObject v \<or> \<not> hasProp ''version'' v \<or> \<not> hasProp ''days'' v \<or> \<not> hasProp ''ui'' v
                 \<or> optProp v ''version'' \<noteq> Some (JNum (of_nat SCHEMA_VERSION))))"
    using that
  proof (elim disjE exE conjE)
    fix e assume "JSON_parse raw = Inl e"
    with ne have "raw = Unparsable" by (cases raw) (simp_all add: JSON_parse_def)
    with raw show ?thesis by (simp add: loadState_unparsable)
  next
    fix v assume "JSON_parse raw = Inr v" "\<not> isObject v"
    then have "raw = Encodes v" "\<not> isObject v"
      by (cases raw; simp add: JSON_parse_def)+
    with raw show ?thesis by (simp add: not_object_default)
  next
    fix v assume "JSON_parse raw = Inr v"
    then have v: "raw = Encodes v" by (cases raw) (simp_all add: JSON_parse_def)
    assume h: "\<not> hasProp ''version'' v"
    show ?thesis
    proof (cases "isObject v")
      case True
      with raw v h show ?thesis by (simp add: loadState_parsed)
    next
      case False
      with raw v show ?thesis by (simp add: not_object_default)
    qed
  next
    fix v assume "JSON_parse raw = Inr v"
    then have v: "raw = Encodes v" by (cases raw) (simp_all add: JSON_parse_def)
    assume h: "\<not> hasProp ''days'' v"
    show ?thesis
    proof (cases "isObject v")
      case True
      with raw v h show ?thesis by (simp add: loadState_parsed)
    next
      case False
      with raw v show ?thesis by (simp add: not_object_default)
    qed
  next
    fix v assume "JSON_parse raw = Inr v"
    then have v: "raw = Encodes v" by (cases raw) (simp_all add: JSON_parse_def)
    assume h: "\<not> hasProp ''ui'' v"
    show ?thesis
    proof (cases "isObject v")
      case True
      with raw v h show ?thesis by (simp add: loadState_parsed)
    next
      case False
      with raw v show ?thesis by (simp add: not_object_default)
    qed
  next
    fix v assume "JSON_parse raw = Inr v"
    then have v: "raw = Encodes v" by (cases raw) (simp_all add: JSON_parse_def)
    assume h: "optProp v ''version'' \<noteq> Some (JNum (of_nat SCHEMA_VERSION))"
    show ?thesis
    proof (cases "isObject v")
      case True
      with raw v h show ?thesis by (simp add: loadState_parsed)
    next
      case False
      with raw v show ?thesis by (simp add: not_object_default)
    qed
  qed
  have 2: "\<exists>kvs'. loadState now today_v st = Inr (JObj kvs', st)
                 \<and> kvs' = AList.update ''ui'' (JObj [(''tab'', JStr ''today'')]) kvs
                 \<and> map_of kvs' ''ui'' = Some (JObj [(''tab'', JStr ''today'')])
                 \<and> map_of kvs' ''days'' = map_of kvs ''days''
                 \<and> (\<forall>name. name \<noteq> ''ui'' \<longrightarrow> map_of kvs' name = map_of kvs name)"
    if "JSON_parse raw = Inr (JObj kvs)" "hasProp ''version'' (JObj kvs)" "hasProp ''days'' (JObj kvs)"
      "hasProp ''ui'' (JObj kvs)" "map_of kvs ''version'' = Some (JNum (of_nat SCHEMA_VERSION))"
      "optChain (map_of kvs ''ui'') ''tab'' = None" for kvs
  proof -
    from that(1) have "raw = Encodes (JObj kvs)" by (cases raw) (simp_all add: JSON_parse_def)
    with that(2-) raw show ?thesis
      by (simp add: loadState_parsed optProp_def truthy_opt_def update_conv')
  qed
  from 1 2 show ?thesis by blast
qed

theorem loadState_fallback_and_backfill_witness:
  "loadState 0 exampleToday staleStateStore = Inr (LockInState_json defaultState, staleStateStore)
   \<and> loadState 0 exampleToday tablessStateStore
       = Inr (JObj [(''version'', JNum 1),
                    (''days'', JObj [(''2026-11-03'', DaySnapshot_json (exampleDay ''2026-11-03'' []))]),
                    (''ui'', JObj [(''tab'', JStr ''today'')])], tablessStateStore)"
proof -
  let ?stale = "JObj [(''version'', JNum 2), (''days'', JObj []),
                      (''ui'', JObj [(''tab'', JStr ''weekly'')])]"
  let ?kvs = "[(''version'', JNum 1),
               (''days'', JObj [(''2026-11-03'', DaySnapshot_json (exampleDay ''2026-11-03'' []))]),
               (''ui'', JObj [])]"
  have a: "getItem staleStateStore KEY_STATE = Some (Encodes ?stale)" "Encodes ?stale \<noteq> EmptyString"
    by (simp_all add: staleStateStore_def acceptingStore_def getItem_def)
  have a': "JSON_parse (Encodes ?stale) = Inr ?stale
      \<and> optProp ?stale ''version'' \<noteq> Some (JNum (of_nat SCHEMA_VERSION))"
    by (simp add: JSON_parse_def optProp_def SCHEMA_VERSION_def)
  have b: "getItem tablessStateStore KEY_STATE = Some (Encodes (JObj ?kvs))"
    "Encodes (JObj ?kvs) \<noteq> EmptyString"
    by (simp_all add: tablessStateStore_def acceptingStore_def getItem_def)
  have b': "JSON_parse (Encodes (JObj ?kvs)) = Inr (JObj ?kvs)
      \<and> hasProp ''version'' (JObj ?kvs) \<and> hasProp ''days'' (JObj ?kvs) \<and> hasProp ''ui'' (JObj ?kvs)
      \<and> map_of ?kvs ''version'' = Some (JNum (of_nat SCHEMA_VERSION))
      \<and> optChain (map_of ?kvs ''ui'') ''tab'' = None"
    by (simp add: JSON_parse_def optChain_def optProp_def SCHEMA_VERSION_def)
  have 1: "loadState 0 exampleToday staleStateStore = Inr (LockInState_json defaultState, staleStateStore)"
    using loadState_fallback_and_backfill [OF a, of 0 exampleToday] a' by blast
  have "\<exists>kvs'. loadState 0 exampleToday tablessStateStore = Inr (JObj kvs', tablessStateStore)
          \<and> kvs' = AList.update ''ui'' (JObj [(''tab'', JStr ''today'')]) ?kvs"
    using loadState_fallback_and_backfill [OF b, of 0 exampleToday] b' by blast
  then have 2: "loadState 0 exampleToday tablessStateStore
      = Inr (JObj (AList.update ''ui'' (JObj [(''tab'', JStr ''today'')]) ?kvs), tablessStateStore)"
    by blast
  from 1 2 show ?thesis by simp
qed

lemmas KEY_defs = KEY_STATE_def KEY_URGES_def KEY_ENERGY_def KEY_MISSIONS_def
  KEY_TIMEBLOCKS_def KEY_MOOD_def KEY_SLEEP_def KEY_SPENT_def

lemma exampleToday_keys:
  "fmtShort exampleToday = ''Nov 3''" "dayKey exampleToday = ''2026-11-03''"
  by (simp_all add: exampleToday_def fmtShort_def monthShort_def dayKey_eval)

lemmas migrate_eval = migrateLegacyIntoState_def Let_def safeParse_def getItem_def
  setItem_def removeItem_def JSON_parse_def JSON_stringify_def hasAnyLegacy_def orElse_def
  optProp_def truthy_opt_def nullish_def blockHasText_def missionHasText_def
  TimeBlocks_json_def Mission_json_def DaySnapshot_json_def defaultMissions_def
  defaultDay_def defaultState_def SCHEMA_VERSION_def todayKey_storage_def setProps_def
  optional_def trim_def acceptingStore_def KEY_defs

lemma migrate_legacyEnergy:
  "\<exists>st1. migrateLegacyIntoState 1793707200000 exampleToday legacyEnergyStore
           = Inr (migratedExample, st1)
     \<and> getItem st1 KEY_STATE = Some (JSON_stringify migratedExample)
     \<and> getItem st1 KEY_URGES = None \<and> getItem st1 KEY_ENERGY = None
     \<and> getItem st1 KEY_MISSIONS = None \<and> getItem st1 KEY_TIMEBLOCKS = None
     \<and> getItem st1 KEY_MOOD = None \<and> getItem st1 KEY_SLEEP = None
     \<and> getItem st1 KEY_SPENT = None"
  by (simp add: migrate_eval legacyEnergyStore_def exampleToday_keys migratedExample_def)

subsection \<open>Legacy migration\<close>

text \<open>A day key holds no space, and \<^verbatim>\<open>fmtShort\<close> always writes one.\<close>

lemma String_nat_no_space: "CHR '' '' \<notin> set (String_nat n)"
proof
  assume "CHR '' '' \<in> set (String_nat n)"
  then have "CHR '' '' \<in> set ''0123456789''" using String_nat_digits by blast
  then show False by simp
qed

lemma padStart2_no_space: "CHR '' '' \<notin> set (padStart2 (String_nat n))"
proof
  assume "CHR '' '' \<in> set (padStart2 (String_nat n))"
  then have "CHR '' '' \<in> set ''0123456789''" using padStart2_digits by blast
  then show False by simp
qed

lemma dayKey_no_space: "CHR '' '' \<notin> set (dayKey d)"
  by (simp add: dayKey_def String_int_def String_nat_no_space padStart2_no_space)

lemma fmtShort_not_dayKey: "fmtShort d \<noteq> dayKey d"
proof
  assume "fmtShort d = dayKey d"
  moreover have "CHR '' '' \<in> set (fmtShort d)" by (simp add: fmtShort_def)
  ultimately have "CHR '' '' \<in> set (dayKey d)" by simp
  then show False using dayKey_no_space by blast
qed

text \<open>
  Whenever the migration builds a snapshot (its result is not the default state), the
  days map of the result has one entry, under \<^verbatim>\<open>fmtShort\<close> of today; the canonical key
  holds the result and the seven legacy keys are gone.
\<close>

lemma migrateLegacyIntoState_key:
  assumes "migrateLegacyIntoState now d st = Inr (v, st1)" "v \<noteq> LockInState_json defaultState"
  shows "\<exists>snap. optProp v ''days'' = Some (JObj [(fmtShort d, snap)])
     \<and> getItem st1 KEY_STATE = Some (JSON_stringify v)
     \<and> getItem st1 KEY_URGES = None \<and> getItem st1 KEY_ENERGY = None
     \<and> getItem st1 KEY_MISSIONS = None \<and> getItem st1 KEY_TIMEBLOCKS = None
     \<and> getItem st1 KEY_MOOD = None \<and> getItem st1 KEY_SLEEP = None
     \<and> getItem st1 KEY_SPENT = None"
proof -
  have "\<exists>snap st0.
      v = JObj [(''version'', JNum (of_nat (version defaultState))),
                (''days'', JObj [(todayKey_storage d, snap)]),
                (''ui'', JObj [(''tab'', Tab_json (tab (ui defaultState)))])]
      \<and> setItem st KEY_STATE (JSON_stringify v) = Inr st0
      \<and> st1 = removeItem (removeItem (removeItem (removeItem (removeItem
                 (removeItem (removeItem st0 KEY_URGES) KEY_ENERGY) KEY_MISSIONS)
                 KEY_TIMEBLOCKS) KEY_MOOD) KEY_SLEEP) KEY_SPENT"
    using assms unfolding migrateLegacyIntoState_def Let_def
    by (auto split: sum.splits bool.splits)
  then obtain snap st0 where
    v: "v = JObj [(''version'', JNum (of_nat (version defaultState))),
                (''days'', JObj [(todayKey_storage d, snap)]),
                (''ui'', JObj [(''tab'', Tab_json (tab (ui defaultState)))])]"
    and w: "setItem st KEY_STATE (JSON_stringify v) = Inr st0"
    and r: "st1 = removeItem (removeItem (removeItem (removeItem (removeItem
                 (removeItem (removeItem st0 KEY_URGES) KEY_ENERGY) KEY_MISSIONS)
                 KEY_TIMEBLOCKS) KEY_MOOD) KEY_SLEEP) KEY_SPENT"
    by blast
  from v have "optProp v ''days'' = Some (JObj [(fmtShort d, snap)])"
    by (simp add: optProp_def todayKey_storage_def)
  moreover from w have "getItem st0 KEY_STATE = Some (JSON_stringify v)"
    by (auto simp: setItem_def getItem_def split: if_splits)
  then have "getItem st1 KEY_STATE = Some (JSON_stringify v)"
    unfolding r by (simp add: getItem_def removeItem_def KEY_defs)
  moreover have "getItem st1 KEY_URGES = None" "getItem st1 KEY_ENERGY = None"
    "getItem st1 KEY_MISSIONS = None" "getItem st1 KEY_TIMEBLOCKS = None"
    "getItem st1 KEY_MOOD = None" "getItem st1 KEY_SLEEP = None" "getItem st1 KEY_SPENT = None"
    unfolding r by (simp_all add: getItem_def removeItem_def KEY_defs)
  ultimately show ?thesis by blast
qed

text \<open>
  C1, at a concrete store. The store holds one legacy key, the energy value 4 (not the
  default 3), and today is 3 November 2026. The migration builds one snapshot from the
  legacy values, writes the canonical state and removes the seven legacy keys. The key
  of the snapshot is what the module's own \<^verbatim>\<open>todayKey\<close> returns, \<^verbatim>\<open>fmtShort\<close> of today,
  \<^verbatim>\<open>Nov 3\<close>: the days map has no entry under the day key \<^verbatim>\<open>2026-11-03\<close>, and on no
  date is that key the day key.
\<close>

theorem migrateLegacyIntoState_day_key:
  "(case migrateLegacyIntoState 1793707200000 exampleToday legacyEnergyStore of
      Inl e \<Rightarrow> False
    | Inr (v, st1) \<Rightarrow>
        v = migratedExample
        \<and> getItem st1 KEY_STATE = Some (JSON_stringify v)
        \<and> getItem st1 KEY_URGES = None \<and> getItem st1 KEY_ENERGY = None
        \<and> getItem st1 KEY_MISSIONS = None \<and> getItem st1 KEY_TIMEBLOCKS = None
        \<and> getItem st1 KEY_MOOD = None \<and> getItem st1 KEY_SLEEP = None
        \<and> getItem st1 KEY_SPENT = None)
   \<and> todayKey_storage exampleToday = ''Nov 3''
   \<and> dayKey exampleToday = ''2026-11-03''
   \<and> optChain (optProp migratedExample ''days'') ''Nov 3'' \<noteq> None
   \<and> optChain (optProp migratedExample ''days'') (dayKey exampleToday) = None
   \<and> (\<forall>d. todayKey_storage d \<noteq> dayKey d)"
proof -
  obtain st1 where
    "migrateLegacyIntoState 1793707200000 exampleToday legacyEnergyStore = Inr (migratedExample, st1)"
    "getItem st1 KEY_STATE = Some (JSON_stringify migratedExample)"
    "getItem st1 KEY_URGES = None" "getItem st1 KEY_ENERGY = None"
    "getItem st1 KEY_MISSIONS = None" "getItem st1 KEY_TIMEBLOCKS = None"
    "getItem st1 KEY_MOOD = None" "getItem st1 KEY_SLEEP = None" "getItem st1 KEY_SPENT = None"
    using migrate_legacyEnergy by blast
  moreover have "optChain (optProp migratedExample ''days'') ''Nov 3'' \<noteq> None"
    "optChain (optProp migratedExample ''days'') (dayKey exampleToday) = None"
    by (simp_all add: migratedExample_def optChain_def optProp_def exampleToday_keys)
  ultimately show ?thesis
    by (simp add: todayKey_storage_def exampleToday_keys fmtShort_not_dayKey)
qed

subsection \<open>The empty string at the canonical key\<close>

text \<open>
  C3 as stated fails on the empty string. It is unparsable JSON, but \<open>loadState\<close>
  treats it as an absent key and runs the legacy migration: with a legacy energy of 4 in
  the store, the result is the migrated state, not the default one, and the store is
  written.
\<close>

theorem loadState_empty_string_counterexample:
  "getItem emptyStateStore KEY_STATE = Some EmptyString
   \<and> JSON_parse EmptyString = Inl SyntaxError
   \<and> (case loadState 1793707200000 exampleToday emptyStateStore of
         Inl e \<Rightarrow> False
       | Inr (v, st1) \<Rightarrow> v = migratedExample \<and> v \<noteq> LockInState_json defaultState
           \<and> st1 \<noteq> emptyStateStore)"
proof -
  have "loadState 1793707200000 exampleToday emptyStateStore
      = migrateLegacyIntoState 1793707200000 exampleToday emptyStateStore"
    by (simp add: loadState_def Let_def getItem_def emptyStateStore_def acceptingStore_def)
  moreover have "\<exists>st1. migrateLegacyIntoState 1793707200000 exampleToday emptyStateStore
      = Inr (migratedExample, st1) \<and> getItem st1 KEY_STATE = Some (JSON_stringify migratedExample)"
    by (simp add: migrate_eval emptyStateStore_def exampleToday_keys migratedExample_def)
  moreover have "migratedExample \<noteq> LockInState_json defaultState"
    by (simp add: migratedExample_def LockInState_json_def defaultState_def)
  moreover have "getItem emptyStateStore KEY_STATE = Some EmptyString"
    by (simp add: getItem_def emptyStateStore_def acceptingStore_def)
  ultimately show ?thesis by (auto simp: JSON_parse_def JSON_stringify_def)
qed

subsection \<open>A failing write\<close>

text \<open>
  C2 as stated fails: on a store that refuses the write, \<open>saveState\<close> and \<open>commitDay\<close>
  end with the store's error, which goes to their caller.
\<close>

theorem saveState_propagates_counterexample:
  "refuses (fullStore []) KEY_STATE (JSON_stringify (LockInState_json defaultState))
   \<and> saveState (fullStore []) (LockInState_json defaultState) = Inl QuotaExceededError
   \<and> commitDay 0 (fullStore []) defaultState (defaultDay 0 ''2026-11-03'')
       = Inl QuotaExceededError"
  by (simp add: saveState_def commitDay_def setItem_def fullStore_def Let_def)

text \<open>
  C2, amended. If the store's set operation fails during a write, \<open>saveState\<close> raises
  the failure to its caller and writes nothing; the failure is swallowed one level up,
  by the debounced save of the shell (its \<^verbatim>\<open>try\<close>/\<^verbatim>\<open>catch\<close> around \<open>saveState\<close>), which
  leaves the in-memory state and the store as they were.
\<close>

theorem saveState_failure_caught_by_caller:
  "refuses (localStorage app) KEY_STATE (JSON_stringify (appState app)) \<Longrightarrow>
   saveState (localStorage app) (appState app) = Inl QuotaExceededError
   \<and> saveDebounced now app = app"
  by (simp add: saveState_def saveDebounced_def setItem_def)

theorem saveState_failure_caught_by_caller_witness:
  "refuses (localStorage (exampleApp (fullStore []))) KEY_STATE
     (JSON_stringify (appState (exampleApp (fullStore []))))
   \<and> saveState (fullStore []) (LockInState_json exampleState) = Inl QuotaExceededError
   \<and> saveDebounced 1793707200000 (exampleApp (fullStore [])) = exampleApp (fullStore [])"
proof -
  have r: "refuses (localStorage (exampleApp (fullStore []))) KEY_STATE
     (JSON_stringify (appState (exampleApp (fullStore []))))"
    by (simp add: exampleApp_def fullStore_def)
  from saveState_failure_caught_by_caller [OF r, of 1793707200000] r show ?thesis
    by (simp add: exampleApp_def)
qed

subsection \<open>Backup import\<close>

text \<open>
  C9. For every backup payload whose version tag is not 1 or whose state field is
  missing, both variants of the import report the failure "Invalid backup file." and
  leave the in-memory state and the store unchanged.
\<close>

theorem onImportFile_rejects_invalid_backup:
  "JSON_parse t = Inr p \<Longrightarrow>
   optProp p ''version'' \<noteq> Some (JNum 1) \<or> optProp p ''state'' = None \<Longrightarrow>
   onImportFile now app (Some t) = alert ''Invalid backup file.'' app
   \<and> onImportFile_strict now app (Some t) = alert ''Invalid backup file.'' app
   \<and> appState (alert ''Invalid backup file.'' app) = appState app
   \<and> localStorage (alert ''Invalid backup file.'' app) = localStorage app
   \<and> alerts (alert ''Invalid backup file.'' app) = alerts app @ [''Invalid backup file.'']"
  by (auto simp: onImportFile_def onImportFile_strict_def alert_def truthy_opt_def)

theorem onImportFile_rejects_invalid_backup_witness:
  "onImportFile 0 (exampleApp (acceptingStore [])) (Some (Encodes wrongVersionBackup))
     = alert ''Invalid backup file.'' (exampleApp (acceptingStore []))
   \<and> onImportFile_strict 0 (exampleApp (acceptingStore [])) (Some (Encodes statelessBackup))
     = alert ''Invalid backup file.'' (exampleApp (acceptingStore []))
   \<and> appState (alert ''Invalid backup file.'' (exampleApp (acceptingStore [])))
     = LockInState_json exampleState"
proof -
  have 1: "JSON_parse (Encodes wrongVersionBackup) = Inr wrongVersionBackup"
    and 2: "optProp wrongVersionBackup ''version'' \<noteq> Some (JNum 1)
            \<or> optProp wrongVersionBackup ''state'' = None"
    by (simp_all add: JSON_parse_def wrongVersionBackup_def optProp_def)
  have 3: "JSON_parse (Encodes statelessBackup) = Inr statelessBackup"
    and 4: "optProp statelessBackup ''version'' \<noteq> Some (JNum 1)
            \<or> optProp statelessBackup ''state'' = None"
    by (simp_all add: JSON_parse_def statelessBackup_def optProp_def)
  from onImportFile_rejects_invalid_backup [OF 1 2, of 0 "exampleApp (acceptingStore [])"]
    onImportFile_rejects_invalid_backup [OF 3 4, of 0 "exampleApp (acceptingStore [])"]
  show ?thesis by (simp add: exampleApp_def)
qed

subsection \<open>Worked examples of the specification\<close>

lemma urgeResistPercent_examples:
  "urgeResistPercent [] = 0"
  "urgeResistPercent [exampleUrge True 0, exampleUrge True 1, exampleUrge False 2] = 67"
  by code_simp+

lemma urgeResistPercent_quotient_first:
  "urgeResistPercent slipWeek = 57"
  by code_simp

lemma missionCompletionPercent_no_break_space:
  "missionCompletionPercent [\<lparr>text' = [CHR 0xC2, CHR 0xA0], done' = True\<rparr>] = 0"
  by code_simp

lemma calcDailyScoreFromDay_rounding_example:
  "score (calcDailyScoreFromDay
      \<lparr>day = ''2026-11-03'', energy = 99 / 32, mood = 43 / 32, sleep = 5, spent = 0,
       timeBlocks = None,
       missions = [\<lparr>text' = ''x'', done' = True\<rparr>, \<lparr>text' = ''y'', done' = False\<rparr>],
       urges = [], updatedAt = 0\<rparr>) = 30"
  by code_simp

lemma calcDailyScoreFromDay_example:
  "score (calcDailyScoreFromDay
      \<lparr>day = ''2026-11-03'', energy = 5, mood = 5, sleep = 7, spent = 0, timeBlocks = None,
       missions = [\<lparr>text' = ''x'', done' = True\<rparr>], urges = [exampleUrge True 0],
       updatedAt = 0\<rparr>) = 100
   \<and> grade (calcDailyScoreFromDay
      \<lparr>day = ''2026-11-03'', energy = 5, mood = 5, sleep = 7, spent = 0, timeBlocks = None,
       missions = [\<lparr>text' = ''x'', done' = True\<rparr>], urges = [exampleUrge True 0],
       updatedAt = 0\<rparr>) = ''CONTROLLED''"
  by code_simp

end
